theory Spec2Isabelle
  imports Complex_Main "HOL-Library.Log_Nat"
begin

section \<open>The audit handler of pine-perf-api\<close>

text \<open>
  The repository holds two copies of one request handler, \<^verbatim>\<open>src/api/run.js\<close> and
  \<^verbatim>\<open>src/run.js\<close>. Both validate the request, call the PageSpeed service once, and
  reshape its JSON answer into a summary with a list of graded issues. The copies agree
  line for line up to the issue grading, which differs; the shared part is modelled once
  and the two gradings separately (suffixes \<open>_api\<close> and \<open>_run\<close>).

  Modelling conventions.
  \<^item> A JavaScript object is a record whose fields carry the object's name as a prefix
    (\<open>audit_score\<close> is \<^verbatim>\<open>audit.score\<close>); a field that may be \<^verbatim>\<open>undefined\<close> or
    \<^verbatim>\<open>null\<close> is an \<open>option\<close>, and \<^verbatim>\<open>a?.b\<close> and \<^verbatim>\<open>a ?? d\<close> are case
    distinctions on it.
  \<^item> The upstream payload is taken at the types the handler reads it at: scores and
    numeric values are numbers, the item list is an array, an item's \<^verbatim>\<open>url\<close> is a
    string.
  \<^item> A number of the payload is a finite double, given by its exact rational value
    (negative zero is not told apart from zero: both are falsy and both print as 0).
    Comparisons of doubles are exact. The handler's multiplication and divisions are
    double-precision operations: they return the double nearest to the exact result,
    a tie going to the even significand, and a product beyond the largest double is
    \<^verbatim>\<open>Infinity\<close>.
  \<^item> An exception is the left injection of a sum, carrying the exception's message.
  \<^item> The platform's \<^verbatim>\<open>new URL(s).host\<close>, \<^verbatim>\<open>fetch\<close> and the environment variable
    are parameters of the handler (record \<open>env\<close>); the handler returns its response
    together with the list of outbound calls it made.
\<close>

subsection \<open>The upstream payload\<close>

type_synonym number = rat

record item =
  item_url :: string

record details =
  details_items :: "item list option"

record audit =
  audit_score :: "number option"
  audit_numericValue :: "number option"
  audit_details :: "details option"

record category =
  category_score :: "number option"

record categories =
  categories_performance :: "category option"

record lighthouseResult =
  lr_audits :: "(string \<rightharpoonup> audit) option"
  lr_categories :: "categories option"

record data =
  data_lighthouseResult :: "lighthouseResult option"

subsection \<open>Double-precision arithmetic\<close>

text \<open>
  The binary64 format: a finite double is \<open>m * 2 ^ e\<close> with \<open>\<bar>m\<bar> < 2 ^ 53\<close> and
  \<open>- 1074 \<le> e \<le> 971\<close>. The floor of the base-2 logarithm of a positive rational:
\<close>

definition ilog2 :: "rat \<Rightarrow> int" where
  "ilog2 x = (if x \<ge> 1 then bitlen \<lfloor>x\<rfloor> - 1 else - bitlen (\<lceil>1 / x\<rceil> - 1))"

text \<open>The nearest integer, a tie going to the even one.\<close>

definition round_half_even :: "rat \<Rightarrow> int" where
  "round_half_even x =
     (if x - of_int \<lfloor>x\<rfloor> < 1 / 2 then \<lfloor>x\<rfloor>
      else if x - of_int \<lfloor>x\<rfloor> > 1 / 2 then \<lfloor>x\<rfloor> + 1
      else if even \<lfloor>x\<rfloor> then \<lfloor>x\<rfloor> else \<lfloor>x\<rfloor> + 1)"

text \<open>The exponent of the unit in the last place of the doubles around \<open>x\<close>: 52 below
  the exponent of \<open>x\<close>, and never below that of the subnormal doubles.\<close>

definition ulp_exponent :: "rat \<Rightarrow> int" where
  "ulp_exponent x = max (ilog2 \<bar>x\<bar> - 52) (- 1074)"

text \<open>Rounding to the nearest double, before the test for overflow.\<close>

definition to_double :: "rat \<Rightarrow> rat" where
  "to_double x =
     (if x = 0 then 0
      else of_int (round_half_even (x / 2 powi ulp_exponent x)) * 2 powi ulp_exponent x)"

text \<open>A value of an arithmetic expression: a finite double or an infinity. (No
  operation of the handler yields \<^verbatim>\<open>NaN\<close> on finite operands.)\<close>

datatype jsnumber = Finite rat | Infinity | NegInfinity

definition overflow :: "rat \<Rightarrow> jsnumber" where
  "overflow y =
     (if y \<ge> 2 ^ 1024 then Infinity else if y \<le> - (2 ^ 1024) then NegInfinity else Finite y)"

text \<open>
  \<^verbatim>\<open>a * b\<close> and \<^verbatim>\<open>a / b\<close> on doubles. The operands are doubles, on which \<open>to_double\<close>
  is the identity (lemma \<open>to_double_idem\<close>); an operand written as a decimal is read as
  the JSON parser reads it, as the double nearest to it. The handler divides by the
  literals 1000 and 1024 * 1024 only, and a quotient of a finite double by them is finite.
\<close>

definition times_double :: "rat \<Rightarrow> rat \<Rightarrow> jsnumber" where
  "times_double a b = overflow (to_double (to_double a * to_double b))"

definition divide_double :: "rat \<Rightarrow> rat \<Rightarrow> rat" where
  "divide_double a b = to_double (to_double a / to_double b)"

subsection \<open>Requests, responses and the platform\<close>

record reqbody =
  body_url :: "string option"

record request =
  req_origin :: "string option"
  req_method :: string
  req_body :: "reqbody option"

datatype grade = A | B | C | D | F

record issue =
  key :: string
  label :: string
  grade :: grade
  tip :: "string option"

record summary =
  sum_score :: jsnumber
  sum_lcp :: "number option"
  sum_cls :: "number option"
  sum_inp :: "number option"
  sum_requests :: "nat option"
  sum_pageSizeMB :: "number option"
  sum_loadTimeS :: "number option"
  sum_issues :: "issue list"

text \<open>
  The three shapes of a response body: \<^verbatim>\<open>res.end()\<close>, \<^verbatim>\<open>res.json({error, detail})\<close>
  and \<^verbatim>\<open>res.json({score, lcp, ...})\<close>. A body is the object handed to \<^verbatim>\<open>res.json\<close>;
  its serialisation (which prints an infinite score as \<^verbatim>\<open>null\<close>) is the platform's.
\<close>

datatype resbody =
  End
  | Json_error (error: string) (detail: "string option")
  | Json_summary summary

record response =
  res_status :: nat
  res_headers :: "(string \<times> string) list"
  res_body :: resbody

text \<open>The query parameters set on \<^verbatim>\<open>psiURL\<close>: one outbound call.\<close>

record psi_query =
  q_url :: string
  q_key :: string
  q_strategy :: string

text \<open>The response \<^verbatim>\<open>r\<close> of \<^verbatim>\<open>fetch\<close>; \<open>r_json\<close> is \<^verbatim>\<open>await r.json()\<close>, which throws on a
  body that is not JSON.\<close>

record upstream =
  r_ok :: bool
  r_status :: nat
  r_text :: string
  r_json :: "string + data"

datatype fetched = Rejected string | Resolved upstream

record env =
  PSI_KEY :: "string option"
  fetch :: "psi_query \<Rightarrow> fetched"
  URL_host :: "string \<Rightarrow> string + string"

subsection \<open>Metric extraction (both files, identical text)\<close>

definition lr :: "data \<Rightarrow> lighthouseResult" where
  "lr d = (case data_lighthouseResult d of
             None \<Rightarrow> \<lparr>lr_audits = None, lr_categories = None\<rparr>
           | Some l \<Rightarrow> l)"

definition audits :: "lighthouseResult \<Rightarrow> (string \<rightharpoonup> audit)" where
  "audits l = (case lr_audits l of None \<Rightarrow> Map.empty | Some a \<Rightarrow> a)"

definition cats :: "lighthouseResult \<Rightarrow> categories" where
  "cats l = (case lr_categories l of
               None \<Rightarrow> \<lparr>categories_performance = None\<rparr>
             | Some c \<Rightarrow> c)"

text \<open>\<^verbatim>\<open>audits[k]?.numericValue\<close> and \<^verbatim>\<open>audits[k]?.score\<close>.\<close>

definition numericValue :: "(string \<rightharpoonup> audit) \<Rightarrow> string \<Rightarrow> number option" where
  "numericValue au k = (case au k of None \<Rightarrow> None | Some a \<Rightarrow> audit_numericValue a)"

definition subscore :: "(string \<rightharpoonup> audit) \<Rightarrow> string \<Rightarrow> number option" where
  "subscore au k = (case au k of None \<Rightarrow> None | Some a \<Rightarrow> audit_score a)"

text \<open>\<^verbatim>\<open>audits['network-requests']?.details?.items\<close>.\<close>

definition network_items :: "(string \<rightharpoonup> audit) \<Rightarrow> item list option" where
  "network_items au =
     (case au ''network-requests'' of
        None \<Rightarrow> None
      | Some a \<Rightarrow> (case audit_details a of None \<Rightarrow> None | Some d \<Rightarrow> details_items d))"

text \<open>\<^verbatim>\<open>Math.round\<close>: the nearest integer, a tie going up; an infinity is returned as
  it is. The result is exact: an integer nearest to a double is a double.\<close>

definition Math_round :: "jsnumber \<Rightarrow> jsnumber" where
  "Math_round x =
     (case x of
        Finite r \<Rightarrow> Finite (of_int \<lfloor>r + 1 / 2\<rfloor>)
      | Infinity \<Rightarrow> Infinity
      | NegInfinity \<Rightarrow> NegInfinity)"

definition score :: "categories \<Rightarrow> jsnumber" where
  "score cs =
     Math_round
       (times_double
          (case categories_performance cs of
             None \<Rightarrow> 0
           | Some p \<Rightarrow> (case category_score p of None \<Rightarrow> 0 | Some s \<Rightarrow> s))
          100)"

text \<open>The conditional \<^verbatim>\<open>v ? v / 1000 : null\<close> takes its second branch when \<^verbatim>\<open>v\<close> is
  \<^verbatim>\<open>undefined\<close>, \<^verbatim>\<open>null\<close> or \<^verbatim>\<open>0\<close>; the division is the double-precision one.\<close>

definition lcp :: "(string \<rightharpoonup> audit) \<Rightarrow> number option" where
  "lcp au =
     (case numericValue au ''largest-contentful-paint'' of
        None \<Rightarrow> None
      | Some v \<Rightarrow> if v \<noteq> 0 then Some (divide_double v 1000) else None)"

definition cls :: "(string \<rightharpoonup> audit) \<Rightarrow> number option" where
  "cls au = numericValue au ''cumulative-layout-shift''"

definition inp :: "(string \<rightharpoonup> audit) \<Rightarrow> number option" where
  "inp au =
     (case numericValue au ''experimental-interaction-to-next-paint'' of
        None \<Rightarrow> numericValue au ''max-potential-fid''
      | Some v \<Rightarrow> Some v)"

definition reqs :: "(string \<rightharpoonup> audit) \<Rightarrow> nat option" where
  "reqs au = (case network_items au of None \<Rightarrow> None | Some its \<Rightarrow> Some (length its))"

definition bytes :: "(string \<rightharpoonup> audit) \<Rightarrow> number option" where
  "bytes au = numericValue au ''total-byte-weight''"

definition pageSizeMB :: "(string \<rightharpoonup> audit) \<Rightarrow> number option" where
  "pageSizeMB au =
     (case bytes au of
        None \<Rightarrow> None
      | Some b \<Rightarrow> if b \<noteq> 0 then Some (divide_double b (1024 * 1024)) else None)"

definition loadTimeS :: "(string \<rightharpoonup> audit) \<Rightarrow> number option" where
  "loadTimeS au =
     (case numericValue au ''speed-index'' of
        Some v \<Rightarrow>
          if v \<noteq> 0 then Some (divide_double v 1000)
          else (case numericValue au ''interactive'' of
                  Some w \<Rightarrow> if w \<noteq> 0 then Some (divide_double w 1000) else None
                | None \<Rightarrow> None)
      | None \<Rightarrow>
          (case numericValue au ''interactive'' of
             Some w \<Rightarrow> if w \<noteq> 0 then Some (divide_double w 1000) else None
           | None \<Rightarrow> None))"

subsection \<open>Issue grading\<close>

text \<open>\<^verbatim>\<open>issues.push({ key, label, grade, tip })\<close>, the array passed explicitly.\<close>

definition addIssue :: "issue list \<Rightarrow> string \<Rightarrow> string \<Rightarrow> grade \<Rightarrow> string option \<Rightarrow> issue list" where
  "addIssue issues k l g t = issues @ [\<lparr>key = k, label = l, grade = g, tip = t\<rparr>]"

text \<open>\<^verbatim>\<open>reqs != null && reqs > n\<close>.\<close>

definition reqs_gt :: "nat option \<Rightarrow> nat \<Rightarrow> bool" where
  "reqs_gt r n = (case r of None \<Rightarrow> False | Some k \<Rightarrow> k > n)"

text \<open>
  The loop over the items: \<open>seen\<close> is the \<^verbatim>\<open>Set\<close>, the counter is \<^verbatim>\<open>externalHosts\<close>.
  An item whose url does not parse throws inside the \<^verbatim>\<open>try\<close> and is skipped.
\<close>

fun hostLoop :: "(string \<Rightarrow> string + string) \<Rightarrow> string \<Rightarrow> item list \<Rightarrow> string set \<times> nat \<Rightarrow> string set \<times> nat" where
  "hostLoop host originHost [] (seen, n) = (seen, n)"
| "hostLoop host originHost (it # its) (seen, n) =
     (case host (item_url it) of
        Inl e \<Rightarrow> hostLoop host originHost its (seen, n)
      | Inr h \<Rightarrow>
          if h \<notin> seen
          then hostLoop host originHost its (insert h seen, if h \<noteq> originHost then n + 1 else n)
          else hostLoop host originHost its (seen, n))"

definition externalHosts :: "(string \<Rightarrow> string + string) \<Rightarrow> string \<Rightarrow> (string \<rightharpoonup> audit) \<Rightarrow> nat" where
  "externalHosts host originHost au =
     snd (hostLoop host originHost
            (case network_items au of None \<Rightarrow> [] | Some its \<Rightarrow> its) ({}, 0))"

subsubsection \<open>src/api/run.js, lines 60 to 99\<close>

definition http_requests_api :: "nat option \<Rightarrow> issue list \<Rightarrow> issue list" where
  "http_requests_api r issues =
     (if reqs_gt r 90 then addIssue issues ''http_requests'' ''Make fewer HTTP requests'' F None
      else if reqs_gt r 60 then addIssue issues ''http_requests'' ''Make fewer HTTP requests'' D None
      else if reqs_gt r 40 then addIssue issues ''http_requests'' ''Make fewer HTTP requests'' C None
      else addIssue issues ''http_requests'' ''Make fewer HTTP requests'' B None)"

definition expires_headers_api :: "number option \<Rightarrow> issue list \<Rightarrow> issue list" where
  "expires_headers_api cacheScore issues =
     (case cacheScore of
        None \<Rightarrow> addIssue issues ''expires_headers'' ''Add Expires headers'' C None
      | Some s \<Rightarrow>
          if s \<ge> 9 / 10 then addIssue issues ''expires_headers'' ''Add Expires headers'' A None
          else if s \<ge> 7 / 10 then addIssue issues ''expires_headers'' ''Add Expires headers'' B None
          else if s \<ge> 4 / 10 then addIssue issues ''expires_headers'' ''Add Expires headers'' C None
          else addIssue issues ''expires_headers'' ''Add Expires headers'' D None)"

definition gzip_api :: "number option \<Rightarrow> issue list \<Rightarrow> issue list" where
  "gzip_api compression issues =
     (case compression of
        None \<Rightarrow> addIssue issues ''gzip'' ''Compress components with gzip/brotli'' C None
      | Some s \<Rightarrow>
          if s \<ge> 9 / 10 then addIssue issues ''gzip'' ''Compress components with gzip/brotli'' A None
          else if s \<ge> 7 / 10 then addIssue issues ''gzip'' ''Compress components with gzip/brotli'' B None
          else if s \<ge> 4 / 10 then addIssue issues ''gzip'' ''Compress components with gzip/brotli'' C None
          else addIssue issues ''gzip'' ''Compress components with gzip/brotli'' D None)"

definition dns_api :: "nat \<Rightarrow> issue list \<Rightarrow> issue list" where
  "dns_api n issues =
     (if n > 6 then addIssue issues ''dns'' ''Reduce DNS lookups'' D None
      else if n > 4 then addIssue issues ''dns'' ''Reduce DNS lookups'' C None
      else if n > 2 then addIssue issues ''dns'' ''Reduce DNS lookups'' B None
      else addIssue issues ''dns'' ''Reduce DNS lookups'' A None)"

definition fixed_api :: "issue list \<Rightarrow> issue list" where
  "fixed_api issues =
     addIssue
       (addIssue issues ''cookies'' ''Use cookie-free domains for static assets'' B None)
       ''empty_src'' ''Avoid empty src or href'' A None"

text \<open>The issue list at line 99, given the host of the target url (line 85 has not
  thrown).\<close>

definition issues_api :: "(string \<Rightarrow> string + string) \<Rightarrow> string \<Rightarrow> (string \<rightharpoonup> audit) \<Rightarrow> issue list" where
  "issues_api host originHost au =
     fixed_api
       (dns_api (externalHosts host originHost au)
         (gzip_api (subscore au ''uses-text-compression'')
           (expires_headers_api (subscore au ''uses-long-cache-ttl'')
             (http_requests_api (reqs au) []))))"

subsubsection \<open>src/run.js, lines 64 to 100\<close>

definition http_requests_run :: "nat option \<Rightarrow> issue list \<Rightarrow> issue list" where
  "http_requests_run r issues =
     (if reqs_gt r 90 then addIssue issues ''http_requests'' ''Make fewer HTTP requests'' F
        (Some ''Concatenate or defer non-critical scripts; lazy-load below-the-fold assets.'')
      else if reqs_gt r 60 then addIssue issues ''http_requests'' ''Make fewer HTTP requests'' D
        (Some ''Combine CSS/JS where possible and remove unused libraries.'')
      else if reqs_gt r 40 then addIssue issues ''http_requests'' ''Make fewer HTTP requests'' C
        (Some ''Audit plugins and third-party tags.'')
      else issues)"

definition expires_headers_run :: "number option \<Rightarrow> issue list \<Rightarrow> issue list" where
  "expires_headers_run cacheScore issues =
     (case cacheScore of
        None \<Rightarrow> addIssue issues ''expires_headers'' ''Add Expires headers'' C
          (Some ''Serve static assets with far-future cache and versioned filenames.'')
      | Some s \<Rightarrow>
          if s < 9 / 10 \<and> s \<ge> 7 / 10 then addIssue issues ''expires_headers'' ''Add Expires headers'' B
            (Some ''Increase cache TTL on images, fonts and compiled assets.'')
          else if s < 7 / 10 \<and> s \<ge> 4 / 10 then addIssue issues ''expires_headers'' ''Add Expires headers'' C
            (Some ''Set Cache-Control/ETag on static assets.'')
          else if s < 4 / 10 then addIssue issues ''expires_headers'' ''Add Expires headers'' D
            (Some ''Enable long-term caching via CDN or server rules.'')
          else issues)"

definition gzip_run :: "number option \<Rightarrow> issue list \<Rightarrow> issue list" where
  "gzip_run compression issues =
     (case compression of
        None \<Rightarrow> addIssue issues ''gzip'' ''Compress components with gzip/brotli'' C
          (Some ''Turn on gzip/brotli at hosting/CDN level.'')
      | Some s \<Rightarrow>
          if s < 9 / 10 \<and> s \<ge> 7 / 10 then addIssue issues ''gzip'' ''Compress components with gzip/brotli'' B
            (Some ''Ensure brotli is enabled for text assets.'')
          else if s < 7 / 10 \<and> s \<ge> 4 / 10 then addIssue issues ''gzip'' ''Compress components with gzip/brotli'' C
            (Some ''Compress HTML/CSS/JS; avoid uncompressed bundles.'')
          else if s < 4 / 10 then addIssue issues ''gzip'' ''Compress components with gzip/brotli'' D
            (Some ''Enable compression at origin/CDN and re-deploy.'')
          else issues)"

definition dns_run :: "nat \<Rightarrow> issue list \<Rightarrow> issue list" where
  "dns_run n issues =
     (if n > 6 then addIssue issues ''dns'' ''Reduce DNS lookups'' D
        (Some ''Consolidate third-party tags and use fewer external hosts.'')
      else if n > 4 then addIssue issues ''dns'' ''Reduce DNS lookups'' C
        (Some ''Self-host fonts/critical assets; defer non-critical tags.'')
      else if n > 2 then addIssue issues ''dns'' ''Reduce DNS lookups'' B
        (Some ''Prefer CDN subdomains you already use.'')
      else issues)"

definition fixed_run :: "issue list \<Rightarrow> issue list" where
  "fixed_run issues =
     addIssue
       (addIssue issues ''cookies'' ''Use cookie-free domains for static assets'' B
          (Some ''Serve images/static assets from a cookieless subdomain or CDN.''))
       ''empty_src'' ''Avoid empty src or href'' A
       (Some ''Scan templates for empty attributes that trigger extra requests.'')"

definition issues_run :: "(string \<Rightarrow> string + string) \<Rightarrow> string \<Rightarrow> (string \<rightharpoonup> audit) \<Rightarrow> issue list" where
  "issues_run host originHost au =
     fixed_run
       (dns_run (externalHosts host originHost au)
         (gzip_run (subscore au ''uses-text-compression'')
           (expires_headers_run (subscore au ''uses-long-cache-ttl'')
             (http_requests_run (reqs au) []))))"

subsection \<open>The transform and the handler\<close>

text \<open>
  Lines 37 to 107 of \<^verbatim>\<open>src/api/run.js\<close> (42 to 108 of \<^verbatim>\<open>src/run.js\<close>), with the issue
  grading as a parameter. The only statement that can throw is
  \<^verbatim>\<open>new URL(url).host\<close> on the target url; it throws before any issue is returned.
\<close>

definition transform ::
  "((string \<Rightarrow> string + string) \<Rightarrow> string \<Rightarrow> (string \<rightharpoonup> audit) \<Rightarrow> issue list) \<Rightarrow>
   (string \<Rightarrow> string + string) \<Rightarrow> string \<Rightarrow> data \<Rightarrow> string + summary" where
  "transform grading host url d =
     (let au = audits (lr d); cs = cats (lr d) in
      case host url of
        Inl msg \<Rightarrow> Inl msg
      | Inr originHost \<Rightarrow>
          Inr \<lparr>sum_score = score cs, sum_lcp = lcp au, sum_cls = cls au, sum_inp = inp au,
               sum_requests = reqs au, sum_pageSizeMB = pageSizeMB au,
               sum_loadTimeS = loadTimeS au, sum_issues = grading host originHost au\<rparr>)"

definition ALLOWED :: "string list" where
  "ALLOWED = [''https://pinedesignmarketing.com'', ''https://www.pinedesignmarketing.com'',
              ''http://localhost:3000'']"

text \<open>The headers set by lines 4 to 15, in the order of the \<^verbatim>\<open>setHeader\<close> calls.\<close>

definition cors :: "request \<Rightarrow> (string \<times> string) list" where
  "cors req =
     (let ORIGIN = (case req_origin req of None \<Rightarrow> [] | Some origin \<Rightarrow> origin) in
      (if ORIGIN \<in> set ALLOWED
       then [(''Access-Control-Allow-Origin'', ORIGIN), (''Vary'', ''Origin'')]
       else [])
      @ [(''Access-Control-Allow-Methods'', ''POST, OPTIONS''),
         (''Access-Control-Allow-Headers'', ''Content-Type'')])"

text \<open>The \<^verbatim>\<open>catch\<close> block.\<close>

definition server_error :: "request \<Rightarrow> string \<Rightarrow> response" where
  "server_error req msg =
     \<lparr>res_status = 500, res_headers = cors req,
      res_body = Json_error ''Server error'' (Some msg)\<rparr>"

definition psiURL :: "env \<Rightarrow> string \<Rightarrow> psi_query" where
  "psiURL e url =
     \<lparr>q_url = url,
      q_key = (case PSI_KEY e of None \<Rightarrow> ''undefined'' | Some k \<Rightarrow> k),
      q_strategy = ''mobile''\<rparr>"

text \<open>\<^verbatim>\<open>const { url } = req.body || {}\<close>.\<close>

definition posted_url :: "request \<Rightarrow> string option" where
  "posted_url req = (case req_body req of None \<Rightarrow> None | Some b \<Rightarrow> body_url b)"

definition handler ::
  "((string \<Rightarrow> string + string) \<Rightarrow> string \<Rightarrow> (string \<rightharpoonup> audit) \<Rightarrow> issue list) \<Rightarrow>
   env \<Rightarrow> request \<Rightarrow> response \<times> psi_query list" where
  "handler grading e req =
     (if req_method req = ''OPTIONS''
      then (\<lparr>res_status = 200, res_headers = cors req, res_body = End\<rparr>, [])
      else if req_method req \<noteq> ''POST''
      then (\<lparr>res_status = 405, res_headers = cors req,
             res_body = Json_error ''Use POST { url }'' None\<rparr>, [])
      else
        (case posted_url req of
           None \<Rightarrow>
             (\<lparr>res_status = 400, res_headers = cors req,
               res_body = Json_error ''Missing url'' None\<rparr>, [])
         | Some url \<Rightarrow>
             if url = []
             then (\<lparr>res_status = 400, res_headers = cors req,
                    res_body = Json_error ''Missing url'' None\<rparr>, [])
             else
               (case fetch e (psiURL e url) of
                  Rejected msg \<Rightarrow> (server_error req msg, [psiURL e url])
                | Resolved r \<Rightarrow>
                    if \<not> r_ok r
                    then (\<lparr>res_status = r_status r, res_headers = cors req,
                           res_body = Json_error ''PSI error'' (Some (r_text r))\<rparr>,
                          [psiURL e url])
                    else
                      (case r_json r of
                         Inl msg \<Rightarrow> (server_error req msg, [psiURL e url])
                       | Inr d \<Rightarrow>
                           (case transform grading (URL_host e) url d of
                              Inl msg \<Rightarrow> (server_error req msg, [psiURL e url])
                            | Inr s \<Rightarrow>
                                (\<lparr>res_status = 200, res_headers = cors req,
                                  res_body = Json_summary s\<rparr>,
                                 [psiURL e url]))))))"

definition handler_api :: "env \<Rightarrow> request \<Rightarrow> response \<times> psi_query list" where
  "handler_api = handler issues_api"

definition handler_run :: "env \<Rightarrow> request \<Rightarrow> response \<times> psi_query list" where
  "handler_run = handler issues_run"


subsection \<open>Reading the payload and the response in the statements\<close>

text \<open>
  The paths the statements below speak about, written without the handler's defaults:
  \<^verbatim>\<open>data.lighthouseResult?.audits?.[k]\<close>, its \<^verbatim>\<open>numericValue\<close> and \<^verbatim>\<open>score\<close>, its
  \<^verbatim>\<open>details?.items\<close>, and \<^verbatim>\<open>data.lighthouseResult?.categories?.performance?.score\<close>.
\<close>

definition payload_audit :: "data \<Rightarrow> string \<Rightarrow> audit option" where
  "payload_audit d k =
     (case data_lighthouseResult d of
        None \<Rightarrow> None
      | Some l \<Rightarrow> (case lr_audits l of None \<Rightarrow> None | Some a \<Rightarrow> a k))"

definition payload_numericValue :: "data \<Rightarrow> string \<Rightarrow> number option" where
  "payload_numericValue d k = Option.bind (payload_audit d k) audit_numericValue"

definition payload_score :: "data \<Rightarrow> string \<Rightarrow> number option" where
  "payload_score d k = Option.bind (payload_audit d k) audit_score"

definition payload_items :: "data \<Rightarrow> item list option" where
  "payload_items d =
     Option.bind (Option.bind (payload_audit d ''network-requests'') audit_details) details_items"

definition performance_score :: "data \<Rightarrow> number option" where
  "performance_score d =
     Option.bind
       (Option.bind (Option.bind (data_lighthouseResult d) lr_categories) categories_performance)
       category_score"

text \<open>The summary a response carries, if it carries one.\<close>

definition the_summary :: "response \<times> psi_query list \<Rightarrow> summary option" where
  "the_summary out = (case res_body (fst out) of Json_summary sm \<Rightarrow> Some sm | _ \<Rightarrow> None)"

text \<open>The grades of the issues with a given key, in the order of the list.\<close>

definition grades_of :: "string \<Rightarrow> issue list \<Rightarrow> grade list" where
  "grades_of k issues = map grade (filter (\<lambda>i. key i = k) issues)"

definition response_grades :: "string \<Rightarrow> response \<times> psi_query list \<Rightarrow> grade list option" where
  "response_grades k out = map_option (\<lambda>sm. grades_of k (sum_issues sm)) (the_summary out)"

subsection \<open>The grading rules in the words of the specification\<close>

text \<open>The ladder on a sub-score: at least 0.9 is A, at least 0.7 is B, at least 0.4 is C,
  below is D; a missing score is C.\<close>

definition ladder_score :: "number option \<Rightarrow> grade" where
  "ladder_score sc =
     (case sc of
        None \<Rightarrow> C
      | Some s \<Rightarrow> if s \<ge> 9 / 10 then A else if s \<ge> 7 / 10 then B else if s \<ge> 4 / 10 then C else D)"

text \<open>The ladder on the number of external hosts: more than 6 is D, more than 4 is C,
  more than 2 is B, else A.\<close>

definition ladder_dns :: "nat \<Rightarrow> grade" where
  "ladder_dns n = (if n > 6 then D else if n > 4 then C else if n > 2 then B else A)"

text \<open>
  The distinct external hosts of a list of items: the hosts of the items whose url
  parses, as a set (each host string once), without the host of the target url.
\<close>

definition parsed_hosts :: "(string \<Rightarrow> string + string) \<Rightarrow> item list \<Rightarrow> string set" where
  "parsed_hosts host its = {h. \<exists>it \<in> set its. host (item_url it) = Inr h}"

definition external_hosts :: "(string \<Rightarrow> string + string) \<Rightarrow> string \<Rightarrow> item list \<Rightarrow> string set" where
  "external_hosts host originHost its = parsed_hosts host its - {originHost}"

definition external_host_count :: "(string \<Rightarrow> string + string) \<Rightarrow> string \<Rightarrow> data \<Rightarrow> nat" where
  "external_host_count host originHost d =
     card (external_hosts host originHost (case payload_items d of None \<Rightarrow> [] | Some its \<Rightarrow> its))"

text \<open>The passing range of a graded rule: the last branch of its ladder in
  \<^verbatim>\<open>src/api/run.js\<close>.\<close>

definition passing :: "issue \<Rightarrow> bool" where
  "passing i \<longleftrightarrow>
     (key i = ''http_requests'' \<and> grade i = B) \<or> (key i = ''expires_headers'' \<and> grade i = A)
     \<or> (key i = ''gzip'' \<and> grade i = A) \<or> (key i = ''dns'' \<and> grade i = A)"

subsection \<open>Example inputs\<close>

text \<open>
  A stand-in for the platform's URL parser in the examples below: a url is accepted when
  it starts with \<^verbatim>\<open>https://\<close>, and its host is what follows up to the next slash.
\<close>

definition example_host :: "string \<Rightarrow> string + string" where
  "example_host u =
     (if take 8 u = ''https://''
      then Inr (takeWhile (\<lambda>c. c \<noteq> CHR ''/'') (drop 8 u))
      else Inl ''Invalid URL'')"

text \<open>An environment whose upstream call always has the given outcome.\<close>

definition example_env :: "fetched \<Rightarrow> env" where
  "example_env f = \<lparr>PSI_KEY = Some ''k'', fetch = (\<lambda>q. f), URL_host = example_host\<rparr>"

definition example_post :: "string \<Rightarrow> request" where
  "example_post u =
     \<lparr>req_origin = Some ''https://pinedesignmarketing.com'', req_method = ''POST'',
      req_body = Some \<lparr>body_url = Some u\<rparr>\<rparr>"

text \<open>A payload with the given audits and performance score.\<close>

definition example_data :: "(string \<rightharpoonup> audit) \<Rightarrow> number option \<Rightarrow> data" where
  "example_data au p =
     \<lparr>data_lighthouseResult =
        Some \<lparr>lr_audits = Some au,
              lr_categories = Some \<lparr>categories_performance = Some \<lparr>category_score = p\<rparr>\<rparr>\<rparr>\<rparr>"

definition example_forbidden :: upstream where
  "example_forbidden =
     \<lparr>r_ok = False, r_status = 403, r_text = ''quota exceeded'', r_json = Inl ''Unexpected token''\<rparr>"

definition example_ok :: "data \<Rightarrow> upstream" where
  "example_ok d = \<lparr>r_ok = True, r_status = 200, r_text = [], r_json = Inr d\<rparr>"

text \<open>An audit that carries only a numeric value, and one that carries only a score.\<close>

definition example_value :: "number \<Rightarrow> audit" where
  "example_value v = \<lparr>audit_score = None, audit_numericValue = Some v, audit_details = None\<rparr>"


text \<open>The network-requests audit with the given items.\<close>

definition example_requests :: "item list \<Rightarrow> audit" where
  "example_requests its =
     \<lparr>audit_score = None, audit_numericValue = None,
      audit_details = Some \<lparr>details_items = Some its\<rparr>\<rparr>"


text \<open>A payload with no audits at all.\<close>

definition example_bare :: data where
  "example_bare = example_data Map.empty None"

text \<open>
  A payload with six request items: the page itself, two files from one external host,
  one from a second, a \<^verbatim>\<open>data:\<close> url (which the stand-in parser rejects), and one from a
  third external host.
\<close>

definition example_mixed :: data where
  "example_mixed =
     example_data
       [''network-requests'' \<mapsto>
          example_requests
            [\<lparr>item_url = ''https://example.com/''\<rparr>,
             \<lparr>item_url = ''https://cdn.a.com/x.js''\<rparr>,
             \<lparr>item_url = ''https://cdn.a.com/y.js''\<rparr>,
             \<lparr>item_url = ''https://fonts.b.com/f''\<rparr>,
             \<lparr>item_url = ''data:image/png''\<rparr>,
             \<lparr>item_url = ''https://c.org/p''\<rparr>]]
       None"

text \<open>A payload with 45 request items, all from the host of the target url.\<close>

definition example_45 :: data where
  "example_45 =
     example_data
       [''network-requests'' \<mapsto> example_requests (replicate 45 \<lparr>item_url = ''https://example.com/a''\<rparr>)]
       None"

text \<open>Payloads with only a performance score: 0.285 as written, the double nearest to
  0.015, and 0.85 as written.\<close>

definition example_perf_285 :: data where
  "example_perf_285 = example_data Map.empty (Some (285 / 1000))"

definition example_perf_015 :: data where
  "example_perf_015 =
     example_data Map.empty (Some (1080863910568919 / 72057594037927936))"

definition example_perf_85 :: data where
  "example_perf_85 = example_data Map.empty (Some (85 / 100))"

text \<open>Payloads whose only audit is largest-contentful-paint, with numeric value 2500
  and 2890.3.\<close>

definition example_lcp_2500 :: data where
  "example_lcp_2500 = example_data [''largest-contentful-paint'' \<mapsto> example_value 2500] None"

definition example_lcp_2890 :: data where
  "example_lcp_2890 =
     example_data [''largest-contentful-paint'' \<mapsto> example_value (28903 / 10)] None"

section \<open>Properties\<close>

subsection \<open>From the handler to the transform\<close>

lemma audits_lr [simp]: "audits (lr d) k = payload_audit d k"
  by (simp add: audits_def lr_def payload_audit_def split: option.splits)

lemma numericValue_payload [simp]: "numericValue (audits (lr d)) k = payload_numericValue d k"
  by (simp add: numericValue_def payload_numericValue_def split: option.splits)

lemma subscore_payload [simp]: "subscore (audits (lr d)) k = payload_score d k"
  by (simp add: subscore_def payload_score_def split: option.splits)

lemma network_items_payload [simp]: "network_items (audits (lr d)) = payload_items d"
  by (simp add: network_items_def payload_items_def split: option.splits)

lemma transform_Inr:
  "transform grading host url d = Inr sm \<longleftrightarrow>
     (\<exists>originHost. host url = Inr originHost \<and>
        sm = \<lparr>sum_score = score (cats (lr d)), sum_lcp = lcp (audits (lr d)),
              sum_cls = cls (audits (lr d)), sum_inp = inp (audits (lr d)),
              sum_requests = reqs (audits (lr d)), sum_pageSizeMB = pageSizeMB (audits (lr d)),
              sum_loadTimeS = loadTimeS (audits (lr d)),
              sum_issues = grading host originHost (audits (lr d))\<rparr>)"
  by (auto simp add: transform_def Let_def split: sum.splits)

text \<open>A response carries a summary exactly when the request passed validation, the
  upstream answered ok with a JSON payload, and the transform did not throw.\<close>

lemma handler_summary:
  "the_summary (handler grading e req) = Some sm \<longleftrightarrow>
     (\<exists>url r d. req_method req = ''POST'' \<and> posted_url req = Some url \<and> url \<noteq> []
        \<and> fetch e (psiURL e url) = Resolved r \<and> r_ok r \<and> r_json r = Inr d
        \<and> transform grading (URL_host e) url d = Inr sm)"
  by (auto simp add: the_summary_def handler_def server_error_def
           split: option.splits fetched.splits sum.splits if_splits)

lemma handler_ok_summary:
  assumes "req_method req = ''POST''"
    and "posted_url req = Some url" and "url \<noteq> []"
    and "fetch e (psiURL e url) = Resolved r" and "r_ok r" and "r_json r = Inr d"
    and "URL_host e url = Inr originHost"
  shows "the_summary (handler grading e req) =
           Some \<lparr>sum_score = score (cats (lr d)), sum_lcp = lcp (audits (lr d)),
                 sum_cls = cls (audits (lr d)), sum_inp = inp (audits (lr d)),
                 sum_requests = reqs (audits (lr d)),
                 sum_pageSizeMB = pageSizeMB (audits (lr d)),
                 sum_loadTimeS = loadTimeS (audits (lr d)),
                 sum_issues = grading (URL_host e) originHost (audits (lr d))\<rparr>"
  using assms by (simp add: the_summary_def handler_def transform_def Let_def)

text \<open>The example request, answered ok with payload \<open>d\<close>, for a target url the stand-in
  parser accepts.\<close>

lemma example_summary:
  assumes "u \<noteq> []" and "example_host u = Inr originHost"
  shows "the_summary (handler grading (example_env (Resolved (example_ok d))) (example_post u)) =
           Some \<lparr>sum_score = score (cats (lr d)), sum_lcp = lcp (audits (lr d)),
                 sum_cls = cls (audits (lr d)), sum_inp = inp (audits (lr d)),
                 sum_requests = reqs (audits (lr d)),
                 sum_pageSizeMB = pageSizeMB (audits (lr d)),
                 sum_loadTimeS = loadTimeS (audits (lr d)),
                 sum_issues = grading example_host originHost (audits (lr d))\<rparr>"
proof -
  let ?e = "example_env (Resolved (example_ok d))"
  have "the_summary (handler grading ?e (example_post u)) =
           Some \<lparr>sum_score = score (cats (lr d)), sum_lcp = lcp (audits (lr d)),
                 sum_cls = cls (audits (lr d)), sum_inp = inp (audits (lr d)),
                 sum_requests = reqs (audits (lr d)),
                 sum_pageSizeMB = pageSizeMB (audits (lr d)),
                 sum_loadTimeS = loadTimeS (audits (lr d)),
                 sum_issues = grading (URL_host ?e) originHost (audits (lr d))\<rparr>"
    by (rule handler_ok_summary [where url = u and r = "example_ok d"])
       (simp_all add: assms example_env_def example_post_def example_ok_def posted_url_def)
  then show ?thesis by (simp add: example_env_def)
qed

lemma example_host_com: "example_host ''https://example.com/'' = Inr ''example.com''"
  by (simp add: example_host_def)

lemma handler_summary_status:
  "the_summary (handler grading e req) = Some sm \<Longrightarrow>
     res_status (fst (handler grading e req)) = 200"
  by (auto simp add: the_summary_def handler_def server_error_def
           split: option.splits fetched.splits sum.splits if_splits)


subsection \<open>Request validation and the upstream error path\<close>

text \<open>
  Claim C8. A request with method \<^verbatim>\<open>OPTIONS\<close> is answered with status 200 and an empty
  body, whatever its origin and body and whatever the platform would answer; in both
  files. The handler makes no outbound call for it, and the response does not depend on
  the upstream or on the transform.
\<close>

theorem options_short_circuit:
  assumes "req_method req = ''OPTIONS''"
  shows "handler_api e req = (\<lparr>res_status = 200, res_headers = cors req, res_body = End\<rparr>, [])
       \<and> handler_run e req = (\<lparr>res_status = 200, res_headers = cors req, res_body = End\<rparr>, [])"
  using assms by (simp add: handler_api_def handler_run_def handler_def)

theorem options_short_circuit_witness:
  "req_method \<lparr>req_origin = None, req_method = ''OPTIONS'', req_body = None\<rparr> = ''OPTIONS''
   \<and> fst (handler_api (example_env (Rejected ''down''))
            \<lparr>req_origin = None, req_method = ''OPTIONS'', req_body = None\<rparr>)
       = \<lparr>res_status = 200,
          res_headers = [(''Access-Control-Allow-Methods'', ''POST, OPTIONS''),
                         (''Access-Control-Allow-Headers'', ''Content-Type'')],
          res_body = End\<rparr>
   \<and> snd (handler_run (example_env (Rejected ''down''))
            \<lparr>req_origin = None, req_method = ''OPTIONS'', req_body = None\<rparr>) = []"
proof -
  let ?req = "\<lparr>req_origin = None, req_method = ''OPTIONS'', req_body = None\<rparr>"
  have h: "req_method ?req = ''OPTIONS''" by simp
  from options_short_circuit [OF h, of "example_env (Rejected ''down'')"]
  show ?thesis by (simp add: cors_def ALLOWED_def)
qed

text \<open>
  Claim C7. In both files, a request whose method is neither \<^verbatim>\<open>POST\<close> nor
  \<^verbatim>\<open>OPTIONS\<close> is answered with status 405 and the fixed payload
  \<^verbatim>\<open>{ error: 'Use POST { url }' }\<close>; a \<^verbatim>\<open>POST\<close> whose body is missing, has no
  \<^verbatim>\<open>url\<close>, or has the empty string as \<^verbatim>\<open>url\<close> is answered with status 400. Neither
  makes an outbound call.
\<close>

theorem method_and_body_validation:
  "(req_method req \<noteq> ''POST'' \<and> req_method req \<noteq> ''OPTIONS'' \<longrightarrow>
      handler_api e req =
        (\<lparr>res_status = 405, res_headers = cors req,
          res_body = Json_error ''Use POST { url }'' None\<rparr>, [])
    \<and> handler_run e req =
        (\<lparr>res_status = 405, res_headers = cors req,
          res_body = Json_error ''Use POST { url }'' None\<rparr>, []))
 \<and> (req_method req = ''POST'' \<and> (posted_url req = None \<or> posted_url req = Some []) \<longrightarrow>
      res_status (fst (handler_api e req)) = 400 \<and> snd (handler_api e req) = []
    \<and> res_status (fst (handler_run e req)) = 400 \<and> snd (handler_run e req) = [])"
  by (auto simp add: handler_api_def handler_run_def handler_def)

theorem method_and_body_validation_witness:
  "res_status (fst (handler_api (example_env (Rejected ''down''))
      \<lparr>req_origin = None, req_method = ''GET'', req_body = None\<rparr>)) = 405
   \<and> res_body (fst (handler_run (example_env (Rejected ''down''))
      \<lparr>req_origin = None, req_method = ''GET'', req_body = None\<rparr>))
       = Json_error ''Use POST { url }'' None
   \<and> res_status (fst (handler_api (example_env (Rejected ''down''))
      \<lparr>req_origin = None, req_method = ''POST'', req_body = None\<rparr>)) = 400
   \<and> res_status (fst (handler_run (example_env (Rejected ''down'')) (example_post []))) = 400"
proof -
  let ?e = "example_env (Rejected ''down'')"
  let ?get = "\<lparr>req_origin = None, req_method = ''GET'', req_body = None\<rparr>"
  let ?nobody = "\<lparr>req_origin = None, req_method = ''POST'', req_body = None\<rparr>"
  have g: "req_method ?get \<noteq> ''POST'' \<and> req_method ?get \<noteq> ''OPTIONS''" by simp
  have n: "req_method ?nobody = ''POST'' \<and> (posted_url ?nobody = None \<or> posted_url ?nobody = Some [])"
    by (simp add: posted_url_def)
  have p: "req_method (example_post []) = ''POST''
           \<and> (posted_url (example_post []) = None \<or> posted_url (example_post []) = Some [])"
    by (simp add: posted_url_def example_post_def)
  from method_and_body_validation [of ?get ?e] g
  have 1: "res_status (fst (handler_api ?e ?get)) = 405
           \<and> res_body (fst (handler_run ?e ?get)) = Json_error ''Use POST { url }'' None"
    by simp
  from method_and_body_validation [of ?nobody ?e] n
  have 2: "res_status (fst (handler_api ?e ?nobody)) = 400" by blast
  from method_and_body_validation [of "example_post []" ?e] p
  have 3: "res_status (fst (handler_run ?e (example_post []))) = 400" by blast
  from 1 2 3 show ?thesis by blast
qed

text \<open>
  Claim C4. In both files, for a \<^verbatim>\<open>POST\<close> with a non-empty url whose upstream call
  returns a response that is not ok, with status \<open>s\<close>: the handler answers with status
  \<open>s\<close> and the body \<^verbatim>\<open>{ error: 'PSI error', detail }\<close> where \<open>detail\<close> is the text of the
  upstream body. The body is an error body, so it carries no summary field, and the
  upstream was called once.
\<close>

theorem upstream_error_forwarded:
  assumes "req_method req = ''POST''"
    and "posted_url req = Some url" and "url \<noteq> []"
    and "fetch e (psiURL e url) = Resolved r"
    and "\<not> r_ok r" and "r_status r = s"
  shows "handler_api e req =
           (\<lparr>res_status = s, res_headers = cors req,
             res_body = Json_error ''PSI error'' (Some (r_text r))\<rparr>, [psiURL e url])
       \<and> handler_run e req =
           (\<lparr>res_status = s, res_headers = cors req,
             res_body = Json_error ''PSI error'' (Some (r_text r))\<rparr>, [psiURL e url])
       \<and> (\<forall>sm. res_body (fst (handler_api e req)) \<noteq> Json_summary sm)
       \<and> (\<forall>sm. res_body (fst (handler_run e req)) \<noteq> Json_summary sm)"
  using assms by (simp add: handler_api_def handler_run_def handler_def)

theorem upstream_error_forwarded_witness:
  "res_status (fst (handler_api (example_env (Resolved example_forbidden))
                     (example_post ''https://example.com/''))) = 403
   \<and> res_body (fst (handler_run (example_env (Resolved example_forbidden))
                     (example_post ''https://example.com/'')))
       = Json_error ''PSI error'' (Some ''quota exceeded'')"
proof -
  let ?e = "example_env (Resolved example_forbidden)"
  let ?req = "example_post ''https://example.com/''"
  have 1: "req_method ?req = ''POST''" by (simp add: example_post_def)
  have 2: "posted_url ?req = Some ''https://example.com/''"
    by (simp add: example_post_def posted_url_def)
  have 3: "''https://example.com/'' \<noteq> []" by simp
  have 4: "fetch ?e (psiURL ?e ''https://example.com/'') = Resolved example_forbidden"
    by (simp add: example_env_def)
  have 5: "\<not> r_ok example_forbidden" by (simp add: example_forbidden_def)
  have 6: "r_status example_forbidden = 403" by (simp add: example_forbidden_def)
  from upstream_error_forwarded [OF 1 2 3 4 5 6]
  show ?thesis by (simp add: example_forbidden_def)
qed



subsection \<open>Rounding to a double\<close>

lemma round_half_even_near: "\<bar>of_int (round_half_even x) - x\<bar> \<le> 1 / 2"
proof -
  have "of_int \<lfloor>x\<rfloor> \<le> x" and "x < of_int \<lfloor>x\<rfloor> + 1" by linarith+
  then show ?thesis by (auto simp add: round_half_even_def)
qed

lemma round_half_even_of_int [simp]: "round_half_even (of_int n) = n"
  by (simp add: round_half_even_def)

lemma round_half_even_le:
  assumes "x \<le> of_int n"
  shows "round_half_even x \<le> n"
proof -
  have "of_int (round_half_even x) \<le> x + 1 / 2"
    using round_half_even_near [of x] by linarith
  with assms have "(of_int (round_half_even x) :: rat) < of_int (n + 1)" by simp
  then show ?thesis by (simp only: of_int_less_iff)
qed

lemma round_half_even_ge:
  assumes "of_int n \<le> x"
  shows "n \<le> round_half_even x"
proof -
  have "x - 1 / 2 \<le> of_int (round_half_even x)"
    using round_half_even_near [of x] by linarith
  with assms have "(of_int (n - 1) :: rat) < of_int (round_half_even x)" by simp
  then show ?thesis by (simp only: of_int_less_iff)
qed

lemma to_double_zero [simp]: "to_double 0 = 0"
  by (simp add: to_double_def)

lemma to_double_near: "\<bar>to_double x - x\<bar> \<le> 2 powi ulp_exponent x / 2"
proof (cases "x = 0")
  case True
  then show ?thesis by simp
next
  case False
  let ?s = "(2::rat) powi ulp_exponent x"
  have pos: "0 < ?s" by simp
  have "to_double x - x = (of_int (round_half_even (x / ?s)) - x / ?s) * ?s"
    using False pos by (simp add: to_double_def field_simps)
  then have "\<bar>to_double x - x\<bar> = \<bar>of_int (round_half_even (x / ?s)) - x / ?s\<bar> * ?s"
    using pos by (simp add: abs_mult)
  also have "\<dots> \<le> 1 / 2 * ?s"
    using round_half_even_near [of "x / ?s"] pos by (intro mult_right_mono) simp_all
  finally show ?thesis by simp
qed

lemma ilog2_bounds:
  assumes "0 < x"
  shows "2 powi ilog2 x \<le> x" and "x < 2 powi (ilog2 x + 1)"
proof -
  show "2 powi ilog2 x \<le> x"
  proof (cases "1 \<le> x")
    case True
    let ?n = "\<lfloor>x\<rfloor>"
    from True have n: "0 < ?n" by simp
    from bitlen_bounds [OF n] have b: "2 ^ nat (bitlen ?n - 1) \<le> ?n" by simp
    have k: "0 \<le> bitlen ?n - 1" using n by (simp add: bitlen_alt_def)
    have "(2::rat) powi ilog2 x = 2 ^ nat (bitlen ?n - 1)"
      using True k by (simp add: ilog2_def power_int_nonneg_exp)
    also have "\<dots> = of_int (2 ^ nat (bitlen ?n - 1))" by simp
    also have "\<dots> \<le> of_int ?n" using b by (simp only: of_int_le_iff)
    also have "\<dots> \<le> x" by simp
    finally show ?thesis .
  next
    case False
    let ?c = "\<lceil>1 / x\<rceil>"
    let ?j = "bitlen (?c - 1)"
    from False assms have y: "1 < 1 / x" by (simp add: field_simps)
    then have c: "0 < ?c - 1" by (simp add: less_ceiling_iff)
    from bitlen_bounds [OF c] have b: "?c - 1 < 2 ^ nat ?j" by simp
    have j: "0 \<le> ?j" by (rule bitlen_nonneg)
    have "1 / x \<le> of_int ?c" by simp
    also have "of_int ?c \<le> (of_int (2 ^ nat ?j) :: rat)" using b by (simp only: of_int_le_iff)
    finally have "1 / x \<le> 2 ^ nat ?j" by simp
    then have "1 / 2 ^ nat ?j \<le> x" using assms by (simp add: field_simps)
    moreover have "(2::rat) powi ilog2 x = 1 / 2 ^ nat ?j"
      using False j by (simp add: ilog2_def power_int_minus_divide power_int_nonneg_exp)
    ultimately show ?thesis by simp
  qed
  show "x < 2 powi (ilog2 x + 1)"
  proof (cases "1 \<le> x")
    case True
    let ?n = "\<lfloor>x\<rfloor>"
    from True have n: "0 < ?n" by simp
    from bitlen_bounds [OF n] have b: "?n < 2 ^ nat (bitlen ?n)" by simp
    have k: "0 \<le> bitlen ?n" by (rule bitlen_nonneg)
    from b have b': "?n + 1 \<le> 2 ^ nat (bitlen ?n)" by linarith
    have "x < of_int (?n + 1)" by (simp add: floor_correct) linarith
    also have "\<dots> \<le> (of_int (2 ^ nat (bitlen ?n)) :: rat)" using b' by (simp only: of_int_le_iff)
    also have "\<dots> = 2 powi (ilog2 x + 1)"
      using True k by (simp add: ilog2_def power_int_nonneg_exp)
    finally show ?thesis .
  next
    case False
    let ?c = "\<lceil>1 / x\<rceil>"
    let ?j = "bitlen (?c - 1)"
    from False assms have y: "1 < 1 / x" by (simp add: field_simps)
    then have c: "0 < ?c - 1" by (simp add: less_ceiling_iff)
    from bitlen_bounds [OF c] have b: "2 ^ nat (?j - 1) \<le> ?c - 1" by simp
    have j: "1 \<le> ?j" using c by (simp add: bitlen_alt_def)
    have "(of_int (2 ^ nat (?j - 1)) :: rat) \<le> of_int (?c - 1)" using b by (simp only: of_int_le_iff)
    also have "\<dots> < 1 / x" by (simp add: ceiling_correct) 
    finally have "2 ^ nat (?j - 1) < 1 / x" by simp
    then have "x < 1 / 2 ^ nat (?j - 1)" using assms by (simp add: field_simps)
    moreover have "(2::rat) powi (ilog2 x + 1) = 1 / 2 ^ nat (?j - 1)"
    proof -
      have "ilog2 x + 1 = - (?j - 1)" using False by (simp add: ilog2_def)
      then have "(2::rat) powi (ilog2 x + 1) = 1 / 2 powi (?j - 1)"
        by (simp only: power_int_minus_divide)
      also have "(2::rat) powi (?j - 1) = 2 ^ nat (?j - 1)"
        using j by (intro power_int_nonneg_exp) simp
      finally show ?thesis .
    qed
    ultimately show ?thesis by simp
  qed
qed


lemma ilog2_less:
  assumes "0 < x" and "x < 2 powi k"
  shows "ilog2 x < k"
proof (rule ccontr)
  assume "\<not> ilog2 x < k"
  then have "k \<le> ilog2 x" by simp
  then have "(2::rat) powi k \<le> 2 powi ilog2 x" by (intro power_int_increasing) simp_all
  with ilog2_bounds(1) [OF assms(1)] assms(2) show False by linarith
qed

text \<open>Every double is a fixed point.\<close>

lemma to_double_double:
  assumes "\<bar>n\<bar> < 2 ^ 53" and "- 1074 \<le> e"
  shows "to_double (of_int n * 2 powi e) = of_int n * 2 powi e"
proof (cases "n = 0")
  case True
  then show ?thesis by simp
next
  case False
  let ?z = "of_int n * (2::rat) powi e"
  have z: "?z \<noteq> 0" using False by simp
  have "\<bar>?z\<bar> = of_int \<bar>n\<bar> * 2 powi e" by (simp add: abs_mult)
  also have "\<dots> < of_int (2 ^ 53) * 2 powi e"
    using assms(1) by (intro mult_strict_right_mono) (simp_all only: of_int_less_iff zero_less_power_int zero_less_numeral)
  also have "\<dots> = 2 powi (53 + e)" by (simp add: power_int_add)
  finally have "\<bar>?z\<bar> < 2 powi (53 + e)" .
  moreover have "0 < \<bar>?z\<bar>" using z by simp
  ultimately have "ilog2 \<bar>?z\<bar> < 53 + e" by (intro ilog2_less)
  with assms(2) have le: "ulp_exponent ?z \<le> e" by (simp add: ulp_exponent_def)
  let ?u = "ulp_exponent ?z"
  have "(2::rat) powi e = 2 powi (e - ?u) * 2 powi ?u"
    by (simp flip: power_int_add)
  also have "(2::rat) powi (e - ?u) = of_int (2 ^ nat (e - ?u))"
    using le by (simp add: power_int_nonneg_exp)
  finally have split: "(2::rat) powi e = of_int (2 ^ nat (e - ?u)) * 2 powi ?u" .
  have "?z / 2 powi ?u = of_int (n * 2 ^ nat (e - ?u))"
    by (subst split) simp
  then have "round_half_even (?z / 2 powi ?u) = n * 2 ^ nat (e - ?u)"
    by (simp only: round_half_even_of_int)
  then have "to_double ?z = of_int (n * 2 ^ nat (e - ?u)) * 2 powi ?u"
    using z by (simp only: to_double_def if_False)
  also have "\<dots> = ?z" by (subst (2) split) simp
  finally show ?thesis .
qed


lemma ulp_exponent_ge: "- 1074 \<le> ulp_exponent x"
  by (simp add: ulp_exponent_def)

lemma scaled_less:
  assumes "x \<noteq> 0"
  shows "\<bar>x / 2 powi ulp_exponent x\<bar> < 2 ^ 53"
proof -
  let ?e = "ulp_exponent x"
  have pos: "0 < \<bar>x\<bar>" using assms by simp
  have "ilog2 \<bar>x\<bar> + 1 \<le> ?e + 53" by (simp add: ulp_exponent_def)
  then have "(2::rat) powi (ilog2 \<bar>x\<bar> + 1) \<le> 2 powi (?e + 53)"
    by (intro power_int_increasing) simp_all
  with ilog2_bounds(2) [OF pos] have "\<bar>x\<bar> < 2 powi (?e + 53)" by linarith
  also have "\<dots> = 2 powi ?e * 2 ^ 53" by (simp add: power_int_add)
  finally have "\<bar>x\<bar> / 2 powi ?e < 2 ^ 53" by (simp add: field_simps)
  then show ?thesis by simp
qed

lemma to_double_idem: "to_double (to_double x) = to_double x"
proof (cases "x = 0")
  case True
  then show ?thesis by simp
next
  case False
  let ?e = "ulp_exponent x"
  let ?m = "round_half_even (x / 2 powi ?e)"
  have y: "to_double x = of_int ?m * 2 powi ?e"
    using False by (simp add: to_double_def)
  have a: "\<bar>x / 2 powi ?e\<bar> < 2 ^ 53" by (rule scaled_less [OF False])
  have c: "(of_int (2 ^ 53) :: rat) = 2 ^ 53" and c': "(of_int (- (2 ^ 53)) :: rat) = - (2 ^ 53)"
    by simp_all
  have "x / 2 powi ?e \<le> of_int (2 ^ 53)"
    unfolding c using a abs_ge_self [of "x / 2 powi ?e"] by linarith
  then have hi: "?m \<le> 2 ^ 53" by (rule round_half_even_le)
  have "of_int (- (2 ^ 53)) \<le> x / 2 powi ?e"
    unfolding c' using a abs_ge_minus_self [of "x / 2 powi ?e"] by linarith
  then have lo: "- (2 ^ 53) \<le> ?m" by (rule round_half_even_ge)
  consider "\<bar>?m\<bar> < 2 ^ 53" | "?m = 2 ^ 53" | "?m = - (2 ^ 53)"
    using hi lo by linarith
  then show ?thesis
  proof cases
    case 1
    then show ?thesis
      unfolding y by (rule to_double_double) (rule ulp_exponent_ge)
  next
    case 2
    have "(of_int ?m :: rat) * 2 powi ?e = of_int (2 ^ 52) * 2 powi (?e + 1)"
      by (simp add: 2 power_int_add)
    moreover have "to_double (of_int (2 ^ 52) * 2 powi (?e + 1)) = of_int (2 ^ 52) * 2 powi (?e + 1)"
      using ulp_exponent_ge [of x] by (intro to_double_double) simp_all
    ultimately show ?thesis unfolding y by simp
  next
    case 3
    have "(of_int ?m :: rat) * 2 powi ?e = of_int (- (2 ^ 52)) * 2 powi (?e + 1)"
      by (simp add: 3 power_int_add)
    moreover have "to_double (of_int (- (2 ^ 52)) * 2 powi (?e + 1)) = of_int (- (2 ^ 52)) * 2 powi (?e + 1)"
      using ulp_exponent_ge [of x] by (intro to_double_double) simp_all
    ultimately show ?thesis unfolding y by simp
  qed
qed

lemma to_double_100: "to_double 100 = 100"
  by code_simp

lemma to_double_1000: "to_double 1000 = 1000"
  by code_simp

lemma overflow_Finite: "overflow y = Finite p \<Longrightarrow> p = y"
  by (simp add: overflow_def split: if_splits)

lemma score_payload:
  "score (cats (lr d)) =
     Math_round (times_double (case performance_score d of None \<Rightarrow> 0 | Some s \<Rightarrow> s) 100)"
  by (auto simp add: score_def cats_def lr_def performance_score_def
           split: option.splits Option.bind_splits)

lemma score_absent: "Math_round (times_double 0 100) = Finite 0"
  by (simp add: times_double_def overflow_def Math_round_def floor_eq_iff)

subsection \<open>Metrics of the summary\<close>

text \<open>
  Claim C5, as stated: the summary's \<open>score\<close> is the performance category score
  times 100, rounded to the nearest integer. The handler rounds the double product, which
  is itself rounded. For the performance score written 0.285 the exact product is 28.5,
  whose nearest integer (a tie going up) is 29, but the double product is
  28.499999999999996 and the handler answers 28. For the double nearest to 0.015, whose
  exact value is just below 0.015, the exact product is just below 1.5 and its nearest
  integer is 1, but the double product is 1.5 and the handler answers 2.
\<close>

theorem score_double_product_counterexample:
  "performance_score example_perf_285 = Some (285 / 1000)
   \<and> map_option sum_score
        (the_summary (handler_api (example_env (Resolved (example_ok example_perf_285)))
                        (example_post ''https://example.com/''))) = Some (Finite 28)
   \<and> round (285 / 1000 * 100 :: rat) = 29
   \<and> performance_score example_perf_015 = Some (1080863910568919 / 72057594037927936)
   \<and> map_option sum_score
        (the_summary (handler_run (example_env (Resolved (example_ok example_perf_015)))
                        (example_post ''https://example.com/''))) = Some (Finite 2)
   \<and> round (1080863910568919 / 72057594037927936 * 100 :: rat) = 1"
proof -
  have u: "''https://example.com/'' \<noteq> []" by simp
  have p1: "performance_score example_perf_285 = Some (285 / 1000)"
    by (simp add: performance_score_def example_perf_285_def example_data_def)
  have r1: "to_double (to_double (285 / 1000) * to_double 100)
              = 8022036836253695 / 281474976710656"
    by code_simp
  have m1: "Math_round (times_double (285 / 1000) 100) = Finite 28"
    unfolding times_double_def r1 by (simp add: overflow_def Math_round_def floor_eq_iff)
  have s1: "score (cats (lr example_perf_285)) = Finite 28"
    by (simp only: score_payload p1 option.case m1)
  have h1: "map_option sum_score
        (the_summary (handler_api (example_env (Resolved (example_ok example_perf_285)))
                        (example_post ''https://example.com/''))) = Some (Finite 28)"
    unfolding handler_api_def by (simp add: example_summary [OF u example_host_com] s1)
  have c1: "round (285 / 1000 * 100 :: rat) = 29"
    by (simp add: round_def floor_eq_iff)
  have p2: "performance_score example_perf_015 = Some (1080863910568919 / 72057594037927936)"
    by (simp add: performance_score_def example_perf_015_def example_data_def)
  have r2: "to_double (to_double (1080863910568919 / 72057594037927936) * to_double 100) = 3 / 2"
    by code_simp
  have m2: "Math_round (times_double (1080863910568919 / 72057594037927936) 100) = Finite 2"
    unfolding times_double_def r2 by (simp add: overflow_def Math_round_def floor_eq_iff)
  have s2: "score (cats (lr example_perf_015)) = Finite 2"
    by (simp only: score_payload p2 option.case m2)
  have h2: "map_option sum_score
        (the_summary (handler_run (example_env (Resolved (example_ok example_perf_015)))
                        (example_post ''https://example.com/''))) = Some (Finite 2)"
    unfolding handler_run_def by (simp add: example_summary [OF u example_host_com] s2)
  have c2: "round (1080863910568919 / 72057594037927936 * 100 :: rat) = 1"
    by (simp add: round_def floor_eq_iff)
  from p1 h1 c1 p2 h2 c2 show ?thesis by blast
qed

text \<open>
  Claim C5, amended. For every upstream payload the summary's \<open>score\<close> is
  \<^verbatim>\<open>Math.round\<close> of the double-precision product of the performance category score
  and 100. When that product is finite the score is the integer nearest to it (a tie
  going up), at distance at most one half from it, and the product is the double nearest
  to the exact product, within half a unit in the last place of it. The score is 0 when
  the performance score is absent, and a performance score of 0.85 gives 85. This holds
  for either grading.
\<close>

theorem score_rounds_double_product:
  assumes "transform grading host url d = Inr sm"
  shows "(\<forall>s. performance_score d = Some s \<longrightarrow>
            sum_score sm = Math_round (times_double s 100))
       \<and> (\<forall>s p. performance_score d = Some s \<and> times_double s 100 = Finite p \<longrightarrow>
            sum_score sm = Finite (of_int (round p)) \<and> \<bar>of_int (round p) - p\<bar> \<le> 1 / 2
          \<and> \<bar>p - to_double s * 100\<bar> \<le> 2 powi ulp_exponent (to_double s * 100) / 2)
       \<and> (performance_score d = None \<longrightarrow> sum_score sm = Finite 0)
       \<and> (performance_score d = Some (85 / 100) \<longrightarrow> sum_score sm = Finite 85)"
proof -
  from assms have sc: "sum_score sm = score (cats (lr d))"
    by (auto simp add: transform_Inr)
  have some: "sum_score sm = Math_round (times_double s 100)"
    if "performance_score d = Some s" for s
    unfolding sc score_payload using that by simp
  have fin: "sum_score sm = Finite (of_int (round p)) \<and> \<bar>of_int (round p) - p\<bar> \<le> 1 / 2
          \<and> \<bar>p - to_double s * 100\<bar> \<le> 2 powi ulp_exponent (to_double s * 100) / 2"
    if "performance_score d = Some s" and "times_double s 100 = Finite p" for s p
  proof -
    from some [OF that(1)] that(2) have 1: "sum_score sm = Finite (of_int (round p))"
      by (simp add: Math_round_def round_def)
    have 2: "\<bar>of_int (round p) - p\<bar> \<le> 1 / 2" by (rule of_int_round_abs_le)
    from that(2) have "p = to_double (to_double s * 100)"
      unfolding times_double_def to_double_100 by (rule overflow_Finite)
    then have 3: "\<bar>p - to_double s * 100\<bar> \<le> 2 powi ulp_exponent (to_double s * 100) / 2"
      using to_double_near [of "to_double s * 100"] by simp
    from 1 2 3 show ?thesis by blast
  qed
  have none: "sum_score sm = Finite 0" if "performance_score d = None"
    unfolding sc score_payload using that by (simp add: score_absent)
  have r: "to_double (to_double (85 / 100) * to_double 100) = 85"
    by code_simp
  have m: "Math_round (times_double (85 / 100) 100) = Finite 85"
    unfolding times_double_def r by (simp add: overflow_def Math_round_def floor_eq_iff)
  have ex: "sum_score sm = Finite 85" if "performance_score d = Some (85 / 100)"
    using some [OF that] unfolding m .
  from some fin none ex show ?thesis by blast
qed

theorem score_rounds_double_product_witness:
  "performance_score example_perf_85 = Some (85 / 100)
   \<and> map_sum id sum_score
        (transform issues_api example_host ''https://example.com/'' example_perf_85)
       = Inr (Finite 85)"
proof -
  let ?d = "example_perf_85"
  let ?au = "audits (lr ?d)"
  let ?sm = "\<lparr>sum_score = score (cats (lr ?d)), sum_lcp = lcp ?au, sum_cls = cls ?au,
              sum_inp = inp ?au, sum_requests = reqs ?au, sum_pageSizeMB = pageSizeMB ?au,
              sum_loadTimeS = loadTimeS ?au,
              sum_issues = issues_api example_host ''example.com'' ?au\<rparr>"
  have t: "transform issues_api example_host ''https://example.com/'' ?d = Inr ?sm"
    by (simp add: transform_def example_host_com Let_def)
  have p: "performance_score ?d = Some (85 / 100)"
    by (simp add: performance_score_def example_perf_85_def example_data_def)
  from score_rounds_double_product [OF t] p have "sum_score ?sm = Finite 85" by blast
  then have "map_sum id sum_score
        (transform issues_api example_host ''https://example.com/'' ?d) = Inr (Finite 85)"
    unfolding t by simp
  with p show ?thesis by blast
qed

text \<open>
  Claim C6, as stated: \<open>lcp\<close> is the largest-contentful-paint numeric value divided by
  1000 whenever that value is present. The handler tests the value for truthiness, so a
  value that is present and 0 gives \<^verbatim>\<open>null\<close>, not 0, in both files.
\<close>

theorem lcp_present_zero_counterexample:
  "payload_numericValue (example_data [''largest-contentful-paint'' \<mapsto> example_value 0] None)
      ''largest-contentful-paint'' = Some 0
   \<and> map_option sum_lcp
        (the_summary
           (handler_api
              (example_env (Resolved (example_ok
                 (example_data [''largest-contentful-paint'' \<mapsto> example_value 0] None))))
              (example_post ''https://example.com/''))) = Some None
   \<and> map_option sum_lcp
        (the_summary
           (handler_run
              (example_env (Resolved (example_ok
                 (example_data [''largest-contentful-paint'' \<mapsto> example_value 0] None))))
              (example_post ''https://example.com/''))) \<noteq> Some (Some (0 / 1000))"
proof -
  let ?d = "example_data [''largest-contentful-paint'' \<mapsto> example_value 0] None"
  have v: "payload_numericValue ?d ''largest-contentful-paint'' = Some 0"
    by (simp add: payload_numericValue_def payload_audit_def example_data_def example_value_def)
  have u: "''https://example.com/'' \<noteq> []" by simp
  have l: "lcp (audits (lr ?d)) = None"
    using v by (simp add: lcp_def)
  show ?thesis
    unfolding handler_api_def handler_run_def
    by (simp add: example_summary [OF u example_host_com] v l)
qed

text \<open>
  Claim C6, amended. For every upstream payload the summary's \<open>lcp\<close> is the
  largest-contentful-paint numeric value divided by 1000 in double precision (the double
  nearest to the exact quotient, within half a unit in the last place of it) when that
  value is present and not zero, and is \<^verbatim>\<open>null\<close> when it is absent or zero; a value of
  2500 gives 2.5. This holds for either grading.
\<close>

theorem lcp_seconds:
  assumes "transform grading host url d = Inr sm"
  shows "(\<forall>v. payload_numericValue d ''largest-contentful-paint'' = Some v \<and> v \<noteq> 0 \<longrightarrow>
            sum_lcp sm = Some (divide_double v 1000)
          \<and> \<bar>divide_double v 1000 - to_double v / 1000\<bar>
               \<le> 2 powi ulp_exponent (to_double v / 1000) / 2)
       \<and> (payload_numericValue d ''largest-contentful-paint'' = None
            \<or> payload_numericValue d ''largest-contentful-paint'' = Some 0 \<longrightarrow> sum_lcp sm = None)
       \<and> (payload_numericValue d ''largest-contentful-paint'' = Some 2500 \<longrightarrow>
            sum_lcp sm = Some (5 / 2))"
proof -
  let ?v = "payload_numericValue d ''largest-contentful-paint''"
  from assms have l: "sum_lcp sm = lcp (audits (lr d))"
    by (auto simp add: transform_Inr)
  have some: "sum_lcp sm = Some (divide_double v 1000)" if "?v = Some v" and "v \<noteq> 0" for v
    unfolding l using that by (simp add: lcp_def)
  have near: "\<bar>divide_double v 1000 - to_double v / 1000\<bar>
               \<le> 2 powi ulp_exponent (to_double v / 1000) / 2" for v
    unfolding divide_double_def to_double_1000 by (rule to_double_near)
  have none: "sum_lcp sm = None" if "?v = None \<or> ?v = Some 0"
    unfolding l using that by (auto simp add: lcp_def)
  have q: "divide_double 2500 1000 = 5 / 2"
    by code_simp
  have nz: "(2500::rat) \<noteq> 0" by simp
  have ex: "sum_lcp sm = Some (5 / 2)" if "?v = Some 2500"
    using some [OF that nz] unfolding q .
  from some near none ex show ?thesis by blast
qed

theorem lcp_seconds_witness:
  "payload_numericValue example_lcp_2500 ''largest-contentful-paint'' = Some 2500
   \<and> map_sum id sum_lcp
        (transform issues_run example_host ''https://example.com/'' example_lcp_2500)
       = Inr (Some (5 / 2))
   \<and> payload_numericValue example_lcp_2890 ''largest-contentful-paint'' = Some (28903 / 10)
   \<and> map_sum id sum_lcp
        (transform issues_api example_host ''https://example.com/'' example_lcp_2890)
       = Inr (Some (6508377001494473 / 2251799813685248))"
proof -
  let ?a = "example_lcp_2500"
  let ?b = "example_lcp_2890"
  let ?sa = "\<lparr>sum_score = score (cats (lr ?a)), sum_lcp = lcp (audits (lr ?a)),
              sum_cls = cls (audits (lr ?a)), sum_inp = inp (audits (lr ?a)),
              sum_requests = reqs (audits (lr ?a)), sum_pageSizeMB = pageSizeMB (audits (lr ?a)),
              sum_loadTimeS = loadTimeS (audits (lr ?a)),
              sum_issues = issues_run example_host ''example.com'' (audits (lr ?a))\<rparr>"
  let ?sb = "\<lparr>sum_score = score (cats (lr ?b)), sum_lcp = lcp (audits (lr ?b)),
              sum_cls = cls (audits (lr ?b)), sum_inp = inp (audits (lr ?b)),
              sum_requests = reqs (audits (lr ?b)), sum_pageSizeMB = pageSizeMB (audits (lr ?b)),
              sum_loadTimeS = loadTimeS (audits (lr ?b)),
              sum_issues = issues_api example_host ''example.com'' (audits (lr ?b))\<rparr>"
  have va: "payload_numericValue ?a ''largest-contentful-paint'' = Some 2500"
    by (simp add: payload_numericValue_def payload_audit_def example_lcp_2500_def
          example_data_def example_value_def)
  have vb: "payload_numericValue ?b ''largest-contentful-paint'' = Some (28903 / 10)"
    by (simp add: payload_numericValue_def payload_audit_def example_lcp_2890_def
          example_data_def example_value_def)
  have ta: "transform issues_run example_host ''https://example.com/'' ?a = Inr ?sa"
    by (simp add: transform_def example_host_com Let_def)
  have tb: "transform issues_api example_host ''https://example.com/'' ?b = Inr ?sb"
    by (simp add: transform_def example_host_com Let_def)
  have nz: "(28903 / 10 :: rat) \<noteq> 0" by simp
  have q: "divide_double (28903 / 10) 1000 = 6508377001494473 / 2251799813685248"
    by code_simp
  from lcp_seconds [OF ta] va have a: "sum_lcp ?sa = Some (5 / 2)" by blast
  from lcp_seconds [OF tb] vb nz have "sum_lcp ?sb = Some (divide_double (28903 / 10) 1000)"
    by blast
  then have b: "sum_lcp ?sb = Some (6508377001494473 / 2251799813685248)"
    unfolding q .
  from a have a': "map_sum id sum_lcp
        (transform issues_run example_host ''https://example.com/'' ?a) = Inr (Some (5 / 2))"
    unfolding ta by simp
  from b have b': "map_sum id sum_lcp
        (transform issues_api example_host ''https://example.com/'' ?b)
          = Inr (Some (6508377001494473 / 2251799813685248))"
    unfolding tb by simp
  from va a' vb b' show ?thesis by blast
qed

subsection \<open>The host-counting loop\<close>

lemma parsed_hosts_Nil [simp]: "parsed_hosts host [] = {}"
  by (simp add: parsed_hosts_def)

lemma parsed_hosts_Cons:
  "parsed_hosts host (it # its) =
     (case host (item_url it) of
        Inl e \<Rightarrow> parsed_hosts host its
      | Inr h \<Rightarrow> insert h (parsed_hosts host its))"
  by (auto simp add: parsed_hosts_def split: sum.splits)

lemma finite_parsed_hosts [simp]: "finite (parsed_hosts host its)"
  by (induction its) (simp_all add: parsed_hosts_Cons split: sum.splits)

text \<open>The invariant of the loop: the counter grows by the number of hosts still to be
  met that are neither seen nor the origin host.\<close>

lemma hostLoop_count:
  "snd (hostLoop host originHost its (seen, n)) =
     n + card (parsed_hosts host its - seen - {originHost})"
proof (induction its arbitrary: seen n)
  case Nil
  show ?case by simp
next
  case (Cons it its)
  show ?case
  proof (cases "host (item_url it)")
    case (Inl e)
    then show ?thesis by (simp add: Cons.IH parsed_hosts_Cons)
  next
    case (Inr h)
    let ?P = "parsed_hosts host its"
    show ?thesis
    proof (cases "h \<in> seen")
      case True
      then have "insert h ?P - seen - {originHost} = ?P - seen - {originHost}" by blast
      with True Inr show ?thesis by (simp add: Cons.IH parsed_hosts_Cons)
    next
      case False
      show ?thesis
      proof (cases "h = originHost")
        case True
        then have "insert h ?P - seen - {originHost} = ?P - insert h seen - {originHost}"
          by blast
        with True False Inr show ?thesis by (simp add: Cons.IH parsed_hosts_Cons)
      next
        case neq: False
        have fin: "finite (?P - insert h seen - {originHost})" by simp
        have notin: "h \<notin> ?P - insert h seen - {originHost}" by blast
        have "insert h ?P - seen - {originHost} = insert h (?P - insert h seen - {originHost})"
          using False neq by blast
        then have "card (insert h ?P - seen - {originHost}) =
                     Suc (card (?P - insert h seen - {originHost}))"
          using card_insert_disjoint [OF fin notin] by simp
        with neq False Inr show ?thesis by (simp add: Cons.IH parsed_hosts_Cons)
      qed
    qed
  qed
qed

lemma externalHosts_card:
  "externalHosts host originHost (audits (lr d)) = external_host_count host originHost d"
  by (simp add: externalHosts_def external_host_count_def external_hosts_def hostLoop_count)

lemma external_hosts_same_host:
  assumes "\<forall>it \<in> set its. host (item_url it) = Inr originHost"
  shows "external_hosts host originHost its = {}"
  using assms by (auto simp add: external_hosts_def parsed_hosts_def)

subsection \<open>The issue lists, rule by rule\<close>

lemma grades_of_append [simp]: "grades_of k (xs @ ys) = grades_of k xs @ grades_of k ys"
  by (simp add: grades_of_def)

lemma grades_of_Nil [simp]: "grades_of k [] = []"
  by (simp add: grades_of_def)

lemma grades_of_addIssue:
  "grades_of k (addIssue issues k' l g t) = grades_of k issues @ (if k' = k then [g] else [])"
  by (simp add: grades_of_def addIssue_def)

lemma http_requests_api_append: "http_requests_api r issues = issues @ http_requests_api r []"
  by (simp add: http_requests_api_def addIssue_def)

lemma expires_headers_api_append: "expires_headers_api s issues = issues @ expires_headers_api s []"
  by (simp add: expires_headers_api_def addIssue_def split: option.splits)

lemma gzip_api_append: "gzip_api s issues = issues @ gzip_api s []"
  by (simp add: gzip_api_def addIssue_def split: option.splits)

lemma dns_api_append: "dns_api n issues = issues @ dns_api n []"
  by (simp add: dns_api_def addIssue_def)

lemma fixed_api_append: "fixed_api issues = issues @ fixed_api []"
  by (simp add: fixed_api_def addIssue_def)

lemma issues_api_append:
  "issues_api host originHost au =
     http_requests_api (reqs au) [] @ expires_headers_api (subscore au ''uses-long-cache-ttl'') []
     @ gzip_api (subscore au ''uses-text-compression'') []
     @ dns_api (externalHosts host originHost au) [] @ fixed_api []"
  unfolding issues_api_def
  by (subst fixed_api_append, subst dns_api_append, subst gzip_api_append,
      subst expires_headers_api_append) simp

lemma http_requests_run_append: "http_requests_run r issues = issues @ http_requests_run r []"
  by (simp add: http_requests_run_def addIssue_def)

lemma expires_headers_run_append: "expires_headers_run s issues = issues @ expires_headers_run s []"
  by (simp add: expires_headers_run_def addIssue_def split: option.splits)

lemma gzip_run_append: "gzip_run s issues = issues @ gzip_run s []"
  by (simp add: gzip_run_def addIssue_def split: option.splits)

lemma dns_run_append: "dns_run n issues = issues @ dns_run n []"
  by (simp add: dns_run_def addIssue_def)

lemma fixed_run_append: "fixed_run issues = issues @ fixed_run []"
  by (simp add: fixed_run_def addIssue_def)

lemma issues_run_append:
  "issues_run host originHost au =
     http_requests_run (reqs au) [] @ expires_headers_run (subscore au ''uses-long-cache-ttl'') []
     @ gzip_run (subscore au ''uses-text-compression'') []
     @ dns_run (externalHosts host originHost au) [] @ fixed_run []"
  unfolding issues_run_def
  by (subst fixed_run_append, subst dns_run_append, subst gzip_run_append,
      subst expires_headers_run_append) simp

text \<open>Each rule of \<^verbatim>\<open>src/api/run.js\<close> pushes one issue with its own key.\<close>

lemma http_requests_api_one:
  "http_requests_api r [] =
     [\<lparr>key = ''http_requests'', label = ''Make fewer HTTP requests'',
       grade = (if reqs_gt r 90 then F else if reqs_gt r 60 then D
                else if reqs_gt r 40 then C else B),
       tip = None\<rparr>]"
  by (simp add: http_requests_api_def addIssue_def)

lemma expires_headers_api_one:
  "expires_headers_api s [] =
     [\<lparr>key = ''expires_headers'', label = ''Add Expires headers'', grade = ladder_score s,
       tip = None\<rparr>]"
  by (simp add: expires_headers_api_def addIssue_def ladder_score_def split: option.splits)

lemma gzip_api_one:
  "gzip_api s [] =
     [\<lparr>key = ''gzip'', label = ''Compress components with gzip/brotli'', grade = ladder_score s,
       tip = None\<rparr>]"
  by (simp add: gzip_api_def addIssue_def ladder_score_def split: option.splits)

lemma dns_api_one:
  "dns_api n [] =
     [\<lparr>key = ''dns'', label = ''Reduce DNS lookups'', grade = ladder_dns n, tip = None\<rparr>]"
  by (simp add: dns_api_def addIssue_def ladder_dns_def)

lemma fixed_api_two:
  "fixed_api [] =
     [\<lparr>key = ''cookies'', label = ''Use cookie-free domains for static assets'', grade = B,
       tip = None\<rparr>,
      \<lparr>key = ''empty_src'', label = ''Avoid empty src or href'', grade = A, tip = None\<rparr>]"
  by (simp add: fixed_api_def addIssue_def)

lemmas issues_api_list =
  issues_api_append http_requests_api_one expires_headers_api_one gzip_api_one dns_api_one
  fixed_api_two


text \<open>Each graded rule of \<^verbatim>\<open>src/run.js\<close> pushes at most one issue; the grades it
  pushes under each key.\<close>

lemma grades_http_requests_api:
  "grades_of k (http_requests_api r []) =
     (if k = ''http_requests''
      then [if reqs_gt r 90 then F else if reqs_gt r 60 then D else if reqs_gt r 40 then C else B]
      else [])"
  by (simp add: http_requests_api_one grades_of_def)

lemma grades_http_requests_run:
  "grades_of k (http_requests_run r []) =
     (if k = ''http_requests''
      then (if reqs_gt r 90 then [F] else if reqs_gt r 60 then [D]
            else if reqs_gt r 40 then [C] else [])
      else [])"
  by (simp add: http_requests_run_def grades_of_addIssue)

lemma grades_expires_headers_api:
  "grades_of k (expires_headers_api s []) = (if k = ''expires_headers'' then [ladder_score s] else [])"
  by (simp add: expires_headers_api_one grades_of_def)

lemma grades_expires_headers_run:
  "grades_of k (expires_headers_run s []) =
     (if k = ''expires_headers'' \<and> ladder_score s \<noteq> A then [ladder_score s] else [])"
  by (cases s) (auto simp add: expires_headers_run_def grades_of_addIssue ladder_score_def)

lemma grades_gzip_api:
  "grades_of k (gzip_api s []) = (if k = ''gzip'' then [ladder_score s] else [])"
  by (simp add: gzip_api_one grades_of_def)

lemma grades_gzip_run:
  "grades_of k (gzip_run s []) =
     (if k = ''gzip'' \<and> ladder_score s \<noteq> A then [ladder_score s] else [])"
  by (cases s) (auto simp add: gzip_run_def grades_of_addIssue ladder_score_def)

lemma grades_dns_api:
  "grades_of k (dns_api n []) = (if k = ''dns'' then [ladder_dns n] else [])"
  by (simp add: dns_api_one grades_of_def)

lemma grades_dns_run:
  "grades_of k (dns_run n []) = (if k = ''dns'' \<and> n > 2 then [ladder_dns n] else [])"
  by (auto simp add: dns_run_def grades_of_addIssue ladder_dns_def)

lemma grades_fixed_api:
  "grades_of k (fixed_api []) =
     (if k = ''cookies'' then [B] else []) @ (if k = ''empty_src'' then [A] else [])"
  by (simp add: fixed_api_two grades_of_def)

lemma grades_fixed_run:
  "grades_of k (fixed_run []) =
     (if k = ''cookies'' then [B] else []) @ (if k = ''empty_src'' then [A] else [])"
  by (simp add: fixed_run_def grades_of_addIssue)

lemmas grades_api =
  issues_api_append grades_http_requests_api grades_expires_headers_api grades_gzip_api
  grades_dns_api grades_fixed_api

lemmas grades_run =
  issues_run_append grades_http_requests_run grades_expires_headers_run grades_gzip_run
  grades_dns_run grades_fixed_run

text \<open>Rule by rule, \<^verbatim>\<open>src/run.js\<close> pushes what \<^verbatim>\<open>src/api/run.js\<close> pushes outside the
  passing range, with a tip added.\<close>

lemma http_requests_run_api:
  "map (\<lambda>i. i\<lparr>tip := None\<rparr>) (http_requests_run r []) =
     filter (\<lambda>i. \<not> passing i) (http_requests_api r [])"
  by (simp add: http_requests_run_def http_requests_api_def addIssue_def passing_def)

lemma expires_headers_run_api:
  "map (\<lambda>i. i\<lparr>tip := None\<rparr>) (expires_headers_run s []) =
     filter (\<lambda>i. \<not> passing i) (expires_headers_api s [])"
  by (cases s) (auto simp add: expires_headers_run_def expires_headers_api_def addIssue_def passing_def)

lemma gzip_run_api:
  "map (\<lambda>i. i\<lparr>tip := None\<rparr>) (gzip_run s []) = filter (\<lambda>i. \<not> passing i) (gzip_api s [])"
  by (cases s) (auto simp add: gzip_run_def gzip_api_def addIssue_def passing_def)

lemma dns_run_api:
  "map (\<lambda>i. i\<lparr>tip := None\<rparr>) (dns_run n []) = filter (\<lambda>i. \<not> passing i) (dns_api n [])"
  by (simp add: dns_run_def dns_api_def addIssue_def passing_def)

lemma fixed_run_api:
  "map (\<lambda>i. i\<lparr>tip := None\<rparr>) (fixed_run []) = filter (\<lambda>i. \<not> passing i) (fixed_api [])"
  by (simp add: fixed_run_def fixed_api_def addIssue_def passing_def)

lemma issues_run_api:
  "map (\<lambda>i. i\<lparr>tip := None\<rparr>) (issues_run host originHost au) =
     filter (\<lambda>i. \<not> passing i) (issues_api host originHost au)"
  by (simp add: issues_run_append issues_api_append http_requests_run_api
        expires_headers_run_api gzip_run_api dns_run_api fixed_run_api)

lemma tips_run:
  assumes "i \<in> set (issues_run host originHost au)"
  shows "tip i \<noteq> None"
proof -
  have 1: "\<forall>i \<in> set (http_requests_run r []). tip i \<noteq> None" for r
    by (simp add: http_requests_run_def addIssue_def)
  have 2: "\<forall>i \<in> set (expires_headers_run s []). tip i \<noteq> None" for s
    by (simp add: expires_headers_run_def addIssue_def split: option.splits)
  have 3: "\<forall>i \<in> set (gzip_run s []). tip i \<noteq> None" for s
    by (simp add: gzip_run_def addIssue_def split: option.splits)
  have 4: "\<forall>i \<in> set (dns_run n []). tip i \<noteq> None" for n
    by (simp add: dns_run_def addIssue_def)
  have 5: "\<forall>i \<in> set (fixed_run []). tip i \<noteq> None"
    by (simp add: fixed_run_def addIssue_def)
  from assms 1 2 3 4 5 show ?thesis
    unfolding issues_run_append set_append by blast
qed

lemma tips_api:
  assumes "i \<in> set (issues_api host originHost au)"
  shows "tip i = None"
  using assms by (auto simp add: issues_api_list)

lemma cookies_in_issues_run:
  "\<lparr>key = ''cookies'', label = ''Use cookie-free domains for static assets'', grade = B,
    tip = Some ''Serve images/static assets from a cookieless subdomain or CDN.''\<rparr>
     \<in> set (issues_run host originHost au)"
  by (simp add: issues_run_append fixed_run_def addIssue_def)

lemma reqs_payload: "reqs (audits (lr d)) = map_option length (payload_items d)"
  by (simp add: reqs_def split: option.splits)

lemma transform_issues:
  assumes "transform grading host url d = Inr sm" and "host url = Inr originHost"
  shows "sum_issues sm = grading host originHost (audits (lr d))"
    and "sum_requests sm = map_option length (payload_items d)"
  using assms by (auto simp add: transform_Inr reqs_payload)

subsection \<open>The issue list\<close>

text \<open>
  Claim C10. In \<^verbatim>\<open>src/api/run.js\<close>, a response that carries a summary has status 200
  and its issue list has exactly six entries, with the keys \<open>http_requests\<close>,
  \<open>expires_headers\<close>, \<open>gzip\<close>, \<open>dns\<close>, \<open>cookies\<close>, \<open>empty_src\<close> in this order; the
  \<open>cookies\<close> entry has grade B and the \<open>empty_src\<close> entry grade A; and when
  \<open>requests\<close> is \<^verbatim>\<open>null\<close> (no network-requests item list) the \<open>http_requests\<close> entry is
  still there, with grade B.
\<close>

theorem api_six_issues:
  assumes "the_summary (handler_api e req) = Some sm"
  shows "res_status (fst (handler_api e req)) = 200
       \<and> length (sum_issues sm) = 6
       \<and> map key (sum_issues sm) =
           [''http_requests'', ''expires_headers'', ''gzip'', ''dns'', ''cookies'', ''empty_src'']
       \<and> grade (sum_issues sm ! 4) = B \<and> grade (sum_issues sm ! 5) = A
       \<and> (sum_requests sm = None \<longrightarrow>
            sum_issues sm ! 0 =
              \<lparr>key = ''http_requests'', label = ''Make fewer HTTP requests'', grade = B, tip = None\<rparr>)"
proof -
  from assms obtain url d originHost where
    sm: "sm = \<lparr>sum_score = score (cats (lr d)), sum_lcp = lcp (audits (lr d)),
              sum_cls = cls (audits (lr d)), sum_inp = inp (audits (lr d)),
              sum_requests = reqs (audits (lr d)), sum_pageSizeMB = pageSizeMB (audits (lr d)),
              sum_loadTimeS = loadTimeS (audits (lr d)),
              sum_issues = issues_api (URL_host e) originHost (audits (lr d))\<rparr>"
    unfolding handler_api_def handler_summary transform_Inr by blast
  have st: "res_status (fst (handler_api e req)) = 200"
    using assms unfolding handler_api_def by (rule handler_summary_status)
  have shape: "length (sum_issues sm) = 6
       \<and> map key (sum_issues sm) =
           [''http_requests'', ''expires_headers'', ''gzip'', ''dns'', ''cookies'', ''empty_src'']
       \<and> grade (sum_issues sm ! 4) = B \<and> grade (sum_issues sm ! 5) = A"
    by (simp add: sm issues_api_list)
  have nul: "sum_issues sm ! 0 =
              \<lparr>key = ''http_requests'', label = ''Make fewer HTTP requests'', grade = B, tip = None\<rparr>"
    if "sum_requests sm = None"
    using that by (simp add: sm issues_api_list reqs_gt_def)
  from st shape nul show ?thesis by blast
qed

theorem api_six_issues_witness:
  "the_summary (handler_api (example_env (Resolved (example_ok (example_data Map.empty None))))
                  (example_post ''https://example.com/''))
     = Some \<lparr>sum_score = Finite 0, sum_lcp = None, sum_cls = None, sum_inp = None,
              sum_requests = None, sum_pageSizeMB = None, sum_loadTimeS = None,
              sum_issues =
                [\<lparr>key = ''http_requests'', label = ''Make fewer HTTP requests'', grade = B, tip = None\<rparr>,
                 \<lparr>key = ''expires_headers'', label = ''Add Expires headers'', grade = C, tip = None\<rparr>,
                 \<lparr>key = ''gzip'', label = ''Compress components with gzip/brotli'', grade = C, tip = None\<rparr>,
                 \<lparr>key = ''dns'', label = ''Reduce DNS lookups'', grade = A, tip = None\<rparr>,
                 \<lparr>key = ''cookies'', label = ''Use cookie-free domains for static assets'', grade = B, tip = None\<rparr>,
                 \<lparr>key = ''empty_src'', label = ''Avoid empty src or href'', grade = A, tip = None\<rparr>]\<rparr>
   \<and> res_status (fst (handler_api (example_env (Resolved (example_ok (example_data Map.empty None))))
                  (example_post ''https://example.com/''))) = 200"
proof -
  let ?d = "example_data Map.empty None"
  let ?out = "handler_api (example_env (Resolved (example_ok ?d))) (example_post ''https://example.com/'')"
  have u: "''https://example.com/'' \<noteq> []" by simp
  have pa: "payload_audit ?d k = None" for k
    by (simp add: payload_audit_def example_data_def)
  have "performance_score ?d = None"
    by (simp add: performance_score_def example_data_def)
  then have sc: "score (cats (lr ?d)) = Finite 0"
    by (simp add: score_payload score_absent)
  have s: "the_summary ?out
     = Some \<lparr>sum_score = Finite 0, sum_lcp = None, sum_cls = None, sum_inp = None,
              sum_requests = None, sum_pageSizeMB = None, sum_loadTimeS = None,
              sum_issues =
                [\<lparr>key = ''http_requests'', label = ''Make fewer HTTP requests'', grade = B, tip = None\<rparr>,
                 \<lparr>key = ''expires_headers'', label = ''Add Expires headers'', grade = C, tip = None\<rparr>,
                 \<lparr>key = ''gzip'', label = ''Compress components with gzip/brotli'', grade = C, tip = None\<rparr>,
                 \<lparr>key = ''dns'', label = ''Reduce DNS lookups'', grade = A, tip = None\<rparr>,
                 \<lparr>key = ''cookies'', label = ''Use cookie-free domains for static assets'', grade = B, tip = None\<rparr>,
                 \<lparr>key = ''empty_src'', label = ''Avoid empty src or href'', grade = A, tip = None\<rparr>]\<rparr>"
    unfolding handler_api_def
    by (simp add: example_summary [OF u example_host_com] issues_api_list externalHosts_def
          sc lcp_def cls_def inp_def reqs_def reqs_gt_def pageSizeMB_def bytes_def loadTimeS_def
          pa payload_numericValue_def payload_score_def payload_items_def ladder_score_def
          ladder_dns_def)
  from api_six_issues [OF s] have "res_status (fst ?out) = 200" by blast
  with s show ?thesis by blast
qed



text \<open>
  Claim C9. The two files grade differently. For every upstream payload,
  \<^verbatim>\<open>src/api/run.js\<close> emits exactly one issue per rule, six in all, none with a tip;
  \<^verbatim>\<open>src/run.js\<close> attaches a tip to every issue it emits, and its list is the list of
  \<^verbatim>\<open>src/api/run.js\<close> without the issues in a rule's passing range (tips aside). The two
  issue lists differ, so a payload on which the files disagree exists.
\<close>

theorem variants_inconsistent:
  assumes "transform issues_api host url d = Inr sa"
    and "transform issues_run host url d = Inr sr"
  shows "length (sum_issues sa) = 6
       \<and> map key (sum_issues sa) =
           [''http_requests'', ''expires_headers'', ''gzip'', ''dns'', ''cookies'', ''empty_src'']
       \<and> (\<forall>i \<in> set (sum_issues sa). tip i = None)
       \<and> (\<forall>i \<in> set (sum_issues sr). tip i \<noteq> None)
       \<and> map (\<lambda>i. i\<lparr>tip := None\<rparr>) (sum_issues sr) = filter (\<lambda>i. \<not> passing i) (sum_issues sa)
       \<and> sum_issues sa \<noteq> sum_issues sr
       \<and> (\<exists>d' sa' sr'. transform issues_api host url d' = Inr sa'
             \<and> transform issues_run host url d' = Inr sr' \<and> sum_issues sa' \<noteq> sum_issues sr')"
proof -
  from assms(1) obtain originHost where h: "host url = Inr originHost"
    by (auto simp add: transform_Inr)
  let ?au = "audits (lr d)"
  have a: "sum_issues sa = issues_api host originHost ?au"
    by (rule transform_issues(1) [OF assms(1) h])
  have r: "sum_issues sr = issues_run host originHost ?au"
    by (rule transform_issues(1) [OF assms(2) h])
  have six: "length (sum_issues sa) = 6
       \<and> map key (sum_issues sa) =
           [''http_requests'', ''expires_headers'', ''gzip'', ''dns'', ''cookies'', ''empty_src'']"
    by (simp add: a issues_api_list)
  have ta: "\<forall>i \<in> set (sum_issues sa). tip i = None"
    unfolding a using tips_api by blast
  have tr: "\<forall>i \<in> set (sum_issues sr). tip i \<noteq> None"
    unfolding r using tips_run by blast
  have fl: "map (\<lambda>i. i\<lparr>tip := None\<rparr>) (sum_issues sr) = filter (\<lambda>i. \<not> passing i) (sum_issues sa)"
    unfolding a r by (rule issues_run_api)
  have ne: "sum_issues sa \<noteq> sum_issues sr"
  proof
    assume eq: "sum_issues sa = sum_issues sr"
    have "\<lparr>key = ''cookies'', label = ''Use cookie-free domains for static assets'', grade = B,
           tip = Some ''Serve images/static assets from a cookieless subdomain or CDN.''\<rparr>
            \<in> set (sum_issues sr)"
      unfolding r by (rule cookies_in_issues_run)
    with eq ta show False by auto
  qed
  from assms ne have ex: "\<exists>d' sa' sr'. transform issues_api host url d' = Inr sa'
             \<and> transform issues_run host url d' = Inr sr' \<and> sum_issues sa' \<noteq> sum_issues sr'"
    by blast
  from six ta tr fl ne ex show ?thesis by blast
qed

theorem variants_inconsistent_witness:
  "map_sum id (\<lambda>sm. map key (sum_issues sm))
      (transform issues_api example_host ''https://example.com/'' (example_data Map.empty None))
     = Inr [''http_requests'', ''expires_headers'', ''gzip'', ''dns'', ''cookies'', ''empty_src'']
   \<and> map_sum id (\<lambda>sm. map key (sum_issues sm))
      (transform issues_run example_host ''https://example.com/'' (example_data Map.empty None))
     = Inr [''expires_headers'', ''gzip'', ''cookies'', ''empty_src'']"
proof -
  let ?d = "example_data Map.empty None"
  let ?au = "audits (lr ?d)"
  let ?sa = "\<lparr>sum_score = score (cats (lr ?d)), sum_lcp = lcp ?au, sum_cls = cls ?au,
              sum_inp = inp ?au, sum_requests = reqs ?au, sum_pageSizeMB = pageSizeMB ?au,
              sum_loadTimeS = loadTimeS ?au,
              sum_issues = issues_api example_host ''example.com'' ?au\<rparr>"
  let ?sr = "\<lparr>sum_score = score (cats (lr ?d)), sum_lcp = lcp ?au, sum_cls = cls ?au,
              sum_inp = inp ?au, sum_requests = reqs ?au, sum_pageSizeMB = pageSizeMB ?au,
              sum_loadTimeS = loadTimeS ?au,
              sum_issues = issues_run example_host ''example.com'' ?au\<rparr>"
  have ta: "transform issues_api example_host ''https://example.com/'' ?d = Inr ?sa"
    by (simp add: transform_def example_host_com Let_def)
  have tr: "transform issues_run example_host ''https://example.com/'' ?d = Inr ?sr"
    by (simp add: transform_def example_host_com Let_def)
  have pa: "payload_audit ?d k = None" for k
    by (simp add: payload_audit_def example_data_def)
  have kr: "map key (issues_run example_host ''example.com'' ?au)
              = [''expires_headers'', ''gzip'', ''cookies'', ''empty_src'']"
    by (simp add: issues_run_append http_requests_run_def expires_headers_run_def gzip_run_def
          dns_run_def fixed_run_def addIssue_def externalHosts_def reqs_payload reqs_gt_def
          payload_score_def payload_items_def pa)
  from variants_inconsistent [OF ta tr]
  have "map key (sum_issues ?sa) =
           [''http_requests'', ''expires_headers'', ''gzip'', ''dns'', ''cookies'', ''empty_src'']"
    by blast
  with kr show ?thesis by (simp add: ta tr)
qed



subsection \<open>The graded rules\<close>






text \<open>
  Claim C2, as stated: when the network-requests audit is absent the \<open>dns\<close> issue has
  grade A. \<^verbatim>\<open>src/run.js\<close> has no branch for two external hosts or fewer: its response to
  a payload without that audit has \<open>requests\<close> \<^verbatim>\<open>null\<close> and no \<open>dns\<close> issue.
\<close>

theorem dns_run_counterexample:
  "payload_audit example_bare ''network-requests'' = None
   \<and> map_option sum_requests
        (the_summary (handler_run (example_env (Resolved (example_ok example_bare)))
                        (example_post ''https://example.com/''))) = Some None
   \<and> response_grades ''dns''
        (handler_run (example_env (Resolved (example_ok example_bare)))
           (example_post ''https://example.com/'')) = Some []
   \<and> response_grades ''dns''
        (handler_run (example_env (Resolved (example_ok example_bare)))
           (example_post ''https://example.com/'')) \<noteq> Some [A]"
proof -
  have pa: "payload_audit example_bare k = None" for k
    by (simp add: payload_audit_def example_bare_def example_data_def)
  have u: "''https://example.com/'' \<noteq> []" by simp
  have it: "payload_items example_bare = None"
    by (simp add: payload_items_def pa)
  have n: "externalHosts example_host ''example.com'' (audits (lr example_bare)) = 0"
    by (simp add: externalHosts_def it)
  have q: "map_option sum_requests
        (the_summary (handler_run (example_env (Resolved (example_ok example_bare)))
                        (example_post ''https://example.com/''))) = Some None"
    unfolding handler_run_def
    by (simp add: example_summary [OF u example_host_com] reqs_payload it)
  have g: "response_grades ''dns''
        (handler_run (example_env (Resolved (example_ok example_bare)))
           (example_post ''https://example.com/'')) = Some []"
    unfolding handler_run_def response_grades_def
    by (simp add: example_summary [OF u example_host_com] grades_run n)
  from pa q g show ?thesis by simp
qed

text \<open>
  Claim C2, amended. For every upstream payload and target url whose response carries a
  summary, let \<open>n\<close> be the number of distinct hosts among the network-requests items'
  urls that differ from the target url's host, each host string counted once and items
  whose url fails to parse skipped. In \<^verbatim>\<open>src/api/run.js\<close> there is exactly one \<open>dns\<close>
  issue, with grade D if \<open>n > 6\<close>, C if \<open>n > 4\<close>, B if \<open>n > 2\<close>, else A. In
  \<^verbatim>\<open>src/run.js\<close> there is one \<open>dns\<close> issue with the same grade when \<open>n > 2\<close>, and none
  when \<open>n \<le> 2\<close>. When the network-requests audit is absent, \<open>requests\<close> is \<^verbatim>\<open>null\<close>,
  the \<open>dns\<close> issue of \<^verbatim>\<open>src/api/run.js\<close> has grade A, and \<^verbatim>\<open>src/run.js\<close> emits no
  \<open>dns\<close> issue.
\<close>

theorem dns_ladder:
  assumes "transform issues_api host url d = Inr sa"
    and "transform issues_run host url d = Inr sr"
    and "host url = Inr originHost"
  shows "grades_of ''dns'' (sum_issues sa) = [ladder_dns (external_host_count host originHost d)]
       \<and> (external_host_count host originHost d > 2 \<longrightarrow>
             grades_of ''dns'' (sum_issues sr) = [ladder_dns (external_host_count host originHost d)])
       \<and> (external_host_count host originHost d \<le> 2 \<longrightarrow> grades_of ''dns'' (sum_issues sr) = [])
       \<and> (payload_audit d ''network-requests'' = None \<longrightarrow>
             sum_requests sa = None \<and> sum_requests sr = None
           \<and> grades_of ''dns'' (sum_issues sa) = [A] \<and> grades_of ''dns'' (sum_issues sr) = [])"
proof -
  let ?n = "external_host_count host originHost d"
  have a: "grades_of ''dns'' (sum_issues sa) = [ladder_dns ?n]"
    by (simp add: transform_issues(1) [OF assms(1) assms(3)] grades_api externalHosts_card)
  have r: "grades_of ''dns'' (sum_issues sr) = (if ?n > 2 then [ladder_dns ?n] else [])"
    by (simp add: transform_issues(1) [OF assms(2) assms(3)] grades_run externalHosts_card)
  have absent: "sum_requests sa = None \<and> sum_requests sr = None \<and> ?n = 0"
    if "payload_audit d ''network-requests'' = None"
  proof -
    from that have "payload_items d = None" by (simp add: payload_items_def)
    then show ?thesis
      by (simp add: transform_issues(2) [OF assms(1) assms(3)]
            transform_issues(2) [OF assms(2) assms(3)] external_host_count_def external_hosts_def)
  qed
  have z: "ladder_dns 0 = A" by (simp add: ladder_dns_def)
  from a r absent z show ?thesis by auto
qed

theorem dns_ladder_witness:
  "example_host ''https://example.com/'' = Inr ''example.com''
   \<and> external_host_count example_host ''example.com'' example_mixed = 3
   \<and> map_sum id (\<lambda>sm. grades_of ''dns'' (sum_issues sm))
        (transform issues_api example_host ''https://example.com/'' example_mixed) = Inr [B]
   \<and> map_sum id (\<lambda>sm. grades_of ''dns'' (sum_issues sm))
        (transform issues_run example_host ''https://example.com/'' example_mixed) = Inr [B]"
proof -
  let ?d = "example_mixed"
  let ?au = "audits (lr ?d)"
  let ?sa = "\<lparr>sum_score = score (cats (lr ?d)), sum_lcp = lcp ?au, sum_cls = cls ?au,
              sum_inp = inp ?au, sum_requests = reqs ?au, sum_pageSizeMB = pageSizeMB ?au,
              sum_loadTimeS = loadTimeS ?au,
              sum_issues = issues_api example_host ''example.com'' ?au\<rparr>"
  let ?sr = "\<lparr>sum_score = score (cats (lr ?d)), sum_lcp = lcp ?au, sum_cls = cls ?au,
              sum_inp = inp ?au, sum_requests = reqs ?au, sum_pageSizeMB = pageSizeMB ?au,
              sum_loadTimeS = loadTimeS ?au,
              sum_issues = issues_run example_host ''example.com'' ?au\<rparr>"
  have ta: "transform issues_api example_host ''https://example.com/'' ?d = Inr ?sa"
    by (simp add: transform_def example_host_com Let_def)
  have tr: "transform issues_run example_host ''https://example.com/'' ?d = Inr ?sr"
    by (simp add: transform_def example_host_com Let_def)
  have it: "payload_items ?d =
              Some [\<lparr>item_url = ''https://example.com/''\<rparr>,
                    \<lparr>item_url = ''https://cdn.a.com/x.js''\<rparr>,
                    \<lparr>item_url = ''https://cdn.a.com/y.js''\<rparr>,
                    \<lparr>item_url = ''https://fonts.b.com/f''\<rparr>,
                    \<lparr>item_url = ''data:image/png''\<rparr>,
                    \<lparr>item_url = ''https://c.org/p''\<rparr>]"
    by (simp add: payload_items_def payload_audit_def example_mixed_def example_data_def
          example_requests_def)
  have "externalHosts example_host ''example.com'' ?au = 3"
    by (simp add: externalHosts_def it example_host_def)
  then have n: "external_host_count example_host ''example.com'' ?d = 3"
    by (simp add: externalHosts_card)
  from dns_ladder [OF ta tr example_host_com] n
  have "grades_of ''dns'' (sum_issues ?sa) = [B] \<and> grades_of ''dns'' (sum_issues ?sr) = [B]"
    by (simp add: ladder_dns_def)
  with n show ?thesis by (simp add: ta tr example_host_com)
qed



lemma example_45_items:
  "payload_items example_45 = Some (replicate 45 \<lparr>item_url = ''https://example.com/a''\<rparr>)"
  by (simp add: payload_items_def payload_audit_def example_45_def example_data_def
        example_requests_def)

lemma example_45_hosts:
  "external_host_count example_host ''example.com'' example_45 = 0"
proof -
  have "example_host ''https://example.com/a'' = Inr ''example.com''"
    by (simp add: example_host_def)
  then have "external_hosts example_host ''example.com''
               (replicate 45 \<lparr>item_url = ''https://example.com/a''\<rparr>) = {}"
    by (intro external_hosts_same_host) simp
  then show ?thesis by (simp add: external_host_count_def example_45_items)
qed

text \<open>
  Claim C3, as stated: a payload with 45 request items, all from the host of the target
  url, yields a \<open>dns\<close> issue with grade A. In \<^verbatim>\<open>src/run.js\<close> the response to such a
  payload has \<open>requests\<close> 45 and an \<open>http_requests\<close> issue with grade C, but no \<open>dns\<close>
  issue.
\<close>

theorem same_host_45_run_counterexample:
  "map_option sum_requests
     (the_summary (handler_run (example_env (Resolved (example_ok example_45)))
                     (example_post ''https://example.com/''))) = Some (Some 45)
   \<and> response_grades ''http_requests''
        (handler_run (example_env (Resolved (example_ok example_45)))
           (example_post ''https://example.com/'')) = Some [C]
   \<and> response_grades ''dns''
        (handler_run (example_env (Resolved (example_ok example_45)))
           (example_post ''https://example.com/'')) = Some []
   \<and> response_grades ''dns''
        (handler_run (example_env (Resolved (example_ok example_45)))
           (example_post ''https://example.com/'')) \<noteq> Some [A]"
proof -
  have u: "''https://example.com/'' \<noteq> []" by simp
  have q: "reqs (audits (lr example_45)) = Some 45"
    by (simp add: reqs_payload example_45_items)
  have s: "the_summary (handler_run (example_env (Resolved (example_ok example_45)))
                     (example_post ''https://example.com/'')) =
           Some \<lparr>sum_score = score (cats (lr example_45)), sum_lcp = lcp (audits (lr example_45)),
                 sum_cls = cls (audits (lr example_45)), sum_inp = inp (audits (lr example_45)),
                 sum_requests = reqs (audits (lr example_45)),
                 sum_pageSizeMB = pageSizeMB (audits (lr example_45)),
                 sum_loadTimeS = loadTimeS (audits (lr example_45)),
                 sum_issues = issues_run example_host ''example.com'' (audits (lr example_45))\<rparr>"
    unfolding handler_run_def by (rule example_summary [OF u example_host_com])
  have h: "grades_of ''http_requests''
             (issues_run example_host ''example.com'' (audits (lr example_45))) = [C]"
    by (simp add: grades_run q reqs_gt_def)
  have g: "grades_of ''dns''
             (issues_run example_host ''example.com'' (audits (lr example_45))) = []"
    by (simp add: grades_run externalHosts_card example_45_hosts)
  show ?thesis by (simp add: response_grades_def s q h g)
qed

text \<open>
  Claim C3, amended. For every upstream payload whose response carries a summary, with
  \<open>n\<close> the number of network-requests items: in both files the \<open>http_requests\<close> issue
  has grade F when \<open>n > 90\<close>, D when \<open>90 \<ge> n > 60\<close>, C when \<open>60 \<ge> n > 40\<close>. A payload
  with 45 items, all with the host of the target url, yields \<open>requests = 45\<close> and an
  \<open>http_requests\<close> issue with grade C in both files, a \<open>dns\<close> issue with grade A in
  \<^verbatim>\<open>src/api/run.js\<close>, and no \<open>dns\<close> issue in \<^verbatim>\<open>src/run.js\<close>.
\<close>

theorem http_requests_ladder:
  assumes "transform issues_api host url d = Inr sa"
    and "transform issues_run host url d = Inr sr"
  shows "(\<forall>its. payload_items d = Some its \<and> length its > 90 \<longrightarrow>
            grades_of ''http_requests'' (sum_issues sa) = [F]
          \<and> grades_of ''http_requests'' (sum_issues sr) = [F])
       \<and> (\<forall>its. payload_items d = Some its \<and> 60 < length its \<and> length its \<le> 90 \<longrightarrow>
            grades_of ''http_requests'' (sum_issues sa) = [D]
          \<and> grades_of ''http_requests'' (sum_issues sr) = [D])
       \<and> (\<forall>its. payload_items d = Some its \<and> 40 < length its \<and> length its \<le> 60 \<longrightarrow>
            grades_of ''http_requests'' (sum_issues sa) = [C]
          \<and> grades_of ''http_requests'' (sum_issues sr) = [C])
       \<and> (\<forall>its. payload_items d = Some its \<and> length its = 45
               \<and> (\<forall>it \<in> set its. host (item_url it) = host url) \<longrightarrow>
            sum_requests sa = Some 45 \<and> sum_requests sr = Some 45
          \<and> grades_of ''http_requests'' (sum_issues sa) = [C]
          \<and> grades_of ''http_requests'' (sum_issues sr) = [C]
          \<and> grades_of ''dns'' (sum_issues sa) = [A]
          \<and> grades_of ''dns'' (sum_issues sr) = [])"
proof -
  from assms(1) obtain originHost where h: "host url = Inr originHost"
    by (auto simp add: transform_Inr)
  note ia = transform_issues(1) [OF assms(1) h]
  note ir = transform_issues(1) [OF assms(2) h]
  have ha: "grades_of ''http_requests'' (sum_issues sa) =
              [if length its > 90 then F else if length its > 60 then D
               else if length its > 40 then C else B]"
    if "payload_items d = Some its" for its
    using that by (simp add: ia grades_api reqs_payload reqs_gt_def)
  have hr: "grades_of ''http_requests'' (sum_issues sr) =
              (if length its > 90 then [F] else if length its > 60 then [D]
               else if length its > 40 then [C] else [])"
    if "payload_items d = Some its" for its
    using that by (simp add: ir grades_run reqs_payload reqs_gt_def)
  have rq: "sum_requests sa = Some (length its) \<and> sum_requests sr = Some (length its)"
    if "payload_items d = Some its" for its
    using that
    by (simp add: transform_issues(2) [OF assms(1) h] transform_issues(2) [OF assms(2) h])
  have dn: "grades_of ''dns'' (sum_issues sa) = [A] \<and> grades_of ''dns'' (sum_issues sr) = []"
    if "payload_items d = Some its" and "\<forall>it \<in> set its. host (item_url it) = host url" for its
  proof -
    from that(2) h have "external_hosts host originHost its = {}"
      by (intro external_hosts_same_host) simp
    with that(1) have "external_host_count host originHost d = 0"
      by (simp add: external_host_count_def)
    then show ?thesis
      by (simp add: ia ir grades_api grades_run externalHosts_card ladder_dns_def)
  qed
  have 1: "\<forall>its. payload_items d = Some its \<and> length its > 90 \<longrightarrow>
            grades_of ''http_requests'' (sum_issues sa) = [F]
          \<and> grades_of ''http_requests'' (sum_issues sr) = [F]"
    using ha hr by simp
  have 2: "\<forall>its. payload_items d = Some its \<and> 60 < length its \<and> length its \<le> 90 \<longrightarrow>
            grades_of ''http_requests'' (sum_issues sa) = [D]
          \<and> grades_of ''http_requests'' (sum_issues sr) = [D]"
    using ha hr by simp
  have 3: "\<forall>its. payload_items d = Some its \<and> 40 < length its \<and> length its \<le> 60 \<longrightarrow>
            grades_of ''http_requests'' (sum_issues sa) = [C]
          \<and> grades_of ''http_requests'' (sum_issues sr) = [C]"
    using ha hr by simp
  have 4: "\<forall>its. payload_items d = Some its \<and> length its = 45
               \<and> (\<forall>it \<in> set its. host (item_url it) = host url) \<longrightarrow>
            sum_requests sa = Some 45 \<and> sum_requests sr = Some 45
          \<and> grades_of ''http_requests'' (sum_issues sa) = [C]
          \<and> grades_of ''http_requests'' (sum_issues sr) = [C]
          \<and> grades_of ''dns'' (sum_issues sa) = [A]
          \<and> grades_of ''dns'' (sum_issues sr) = []"
  proof (intro allI impI)
    fix its
    assume p: "payload_items d = Some its \<and> length its = 45
               \<and> (\<forall>it \<in> set its. host (item_url it) = host url)"
    from p ha [of its] hr [of its] rq [of its] dn [of its]
    show "sum_requests sa = Some 45 \<and> sum_requests sr = Some 45
          \<and> grades_of ''http_requests'' (sum_issues sa) = [C]
          \<and> grades_of ''http_requests'' (sum_issues sr) = [C]
          \<and> grades_of ''dns'' (sum_issues sa) = [A]
          \<and> grades_of ''dns'' (sum_issues sr) = []"
      by simp
  qed
  from 1 2 3 4 show ?thesis by blast
qed

theorem http_requests_ladder_witness:
  "payload_items example_45 = Some (replicate 45 \<lparr>item_url = ''https://example.com/a''\<rparr>)
   \<and> length (replicate 45 \<lparr>item_url = ''https://example.com/a''\<rparr>) = 45
   \<and> example_host ''https://example.com/a'' = example_host ''https://example.com/''
   \<and> map_sum id sum_requests
        (transform issues_api example_host ''https://example.com/'' example_45) = Inr (Some 45)
   \<and> map_sum id (\<lambda>sm. grades_of ''http_requests'' (sum_issues sm))
        (transform issues_api example_host ''https://example.com/'' example_45) = Inr [C]
   \<and> map_sum id (\<lambda>sm. grades_of ''http_requests'' (sum_issues sm))
        (transform issues_run example_host ''https://example.com/'' example_45) = Inr [C]
   \<and> map_sum id (\<lambda>sm. grades_of ''dns'' (sum_issues sm))
        (transform issues_api example_host ''https://example.com/'' example_45) = Inr [A]"
proof -
  let ?d = "example_45"
  let ?au = "audits (lr ?d)"
  let ?its = "replicate 45 \<lparr>item_url = ''https://example.com/a''\<rparr>"
  let ?sa = "\<lparr>sum_score = score (cats (lr ?d)), sum_lcp = lcp ?au, sum_cls = cls ?au,
              sum_inp = inp ?au, sum_requests = reqs ?au, sum_pageSizeMB = pageSizeMB ?au,
              sum_loadTimeS = loadTimeS ?au,
              sum_issues = issues_api example_host ''example.com'' ?au\<rparr>"
  let ?sr = "\<lparr>sum_score = score (cats (lr ?d)), sum_lcp = lcp ?au, sum_cls = cls ?au,
              sum_inp = inp ?au, sum_requests = reqs ?au, sum_pageSizeMB = pageSizeMB ?au,
              sum_loadTimeS = loadTimeS ?au,
              sum_issues = issues_run example_host ''example.com'' ?au\<rparr>"
  have ta: "transform issues_api example_host ''https://example.com/'' ?d = Inr ?sa"
    by (simp add: transform_def example_host_com Let_def)
  have tr: "transform issues_run example_host ''https://example.com/'' ?d = Inr ?sr"
    by (simp add: transform_def example_host_com Let_def)
  have len: "length ?its = 45" by simp
  have same: "example_host ''https://example.com/a'' = example_host ''https://example.com/''"
    by (simp add: example_host_def)
  then have all: "\<forall>it \<in> set ?its. example_host (item_url it) = example_host ''https://example.com/''"
    by simp
  from http_requests_ladder [OF ta tr] example_45_items len all
  have "sum_requests ?sa = Some 45
      \<and> grades_of ''http_requests'' (sum_issues ?sa) = [C]
      \<and> grades_of ''http_requests'' (sum_issues ?sr) = [C]
      \<and> grades_of ''dns'' (sum_issues ?sa) = [A]"
    by blast
  with example_45_items len same show ?thesis by (simp add: ta tr)
qed


end
